theory Spec2Isabelle
  imports Complex_Main
begin

section \<open>Python values and string formatting\<close>

text \<open>
  The camera class of \<^verbatim>\<open>usbCamera.py\<close> talks to OpenCV, to the clock and to the
  logger. The embedding keeps the class as a record, every library call as an event of
  a trace, and every answer of the outside world as a parameter of the call.
\<close>

definition digit_char :: "nat \<Rightarrow> char" where
  "digit_char d = ''0123456789'' ! d"

text \<open>Decimal rendering of a non-negative integer, as \<^verbatim>\<open>str\<close> and \<^verbatim>\<open>{x}\<close> do.\<close>

fun str_nat :: "nat \<Rightarrow> string" where
  "str_nat n = (if n < 10 then [digit_char n] else str_nat (n div 10) @ [digit_char (n mod 10)])"

declare str_nat.simps [simp del]

definition str_int :: "int \<Rightarrow> string" where
  "str_int i = (if i < 0 then ''-'' @ str_nat (nat (- i)) else str_nat (nat i))"

text \<open>The format \<^verbatim>\<open>{x:02d}\<close>: the sign counts for the width, zeros fill up to two characters.\<close>

definition fmt_02d :: "int \<Rightarrow> string" where
  "fmt_02d i = (let s = str_int i in if length s < 2 then ''0'' @ s else s)"

subsection \<open>Floats\<close>

text \<open>
  A Python float is a binary64 number, here the real number it stands for; \<^verbatim>\<open>nan\<close>,
  \<^verbatim>\<open>inf\<close> and overflow are outside the model. An arithmetic result is the exact
  result rounded to the nearest binary64 number, ties to the even significand: 53 bits of
  significand, and the spacing \<open>2 ^ - 1074\<close> below the normal range.
\<close>

definition pow2 :: "int \<Rightarrow> real" where
  "pow2 e = (if 0 \<le> e then 2 ^ nat e else 1 / 2 ^ nat (- e))"

definition round_half_even :: "real \<Rightarrow> int" where
  "round_half_even y =
     (let n = \<lfloor>y\<rfloor>; d = y - of_int n
      in if d < 1 / 2 then n else if 1 / 2 < d then n + 1 else if even n then n else n + 1)"

text \<open>The exponent of the last place of the binary64 numbers around \<open>x\<close>.\<close>

definition ulp_exp :: "real \<Rightarrow> int" where
  "ulp_exp x = max (- 1074) (\<lfloor>log 2 \<bar>x\<bar>\<rfloor> - 52)"

definition fl :: "real \<Rightarrow> real" where
  "fl x = (if x = 0 then 0 else of_int (round_half_even (x / pow2 (ulp_exp x))) * pow2 (ulp_exp x))"

text \<open>The subtraction \<^verbatim>\<open>a - b\<close> of two floats.\<close>

definition fsub :: "real \<Rightarrow> real \<Rightarrow> real" where
  "fsub a b = fl (a - b)"

text \<open>\<^verbatim>\<open>int(x)\<close> on a float truncates towards zero.\<close>

definition py_int :: "real \<Rightarrow> int" where
  "py_int x = (if 0 \<le> x then \<lfloor>x\<rfloor> else \<lceil>x\<rceil>)"

text \<open>The arguments of \<^verbatim>\<open>take_picture\<close> that are only formatted into the file name.\<close>

datatype pyval = PyNone | PyStr string | PyInt int

fun fmt :: "pyval \<Rightarrow> string" where
  "fmt PyNone = ''None''"
| "fmt (PyStr s) = s"
| "fmt (PyInt i) = str_int i"

text \<open>The repr of the resolution tuple, as \<^verbatim>\<open>{self.frame_resolution}\<close> prints it.\<close>

definition fmt_pair :: "int \<times> int \<Rightarrow> string" where
  "fmt_pair p = ''('' @ str_int (fst p) @ '', '' @ str_int (snd p) @ '')''"

subsection \<open>Exceptions\<close>

datatype pyexn =
    AttributeError string
  | TypeError string
  | CvError string

fun exn_msg :: "pyexn \<Rightarrow> string" where
  "exn_msg (AttributeError a) =
     [CHR 0x27] @ ''NoneType'' @ [CHR 0x27] @ '' object has no attribute '' @ [CHR 0x27] @ a @ [CHR 0x27]"
| "exn_msg (TypeError m) = m"
| "exn_msg (CvError m) = m"

text \<open>
  \<^verbatim>\<open>sys.exit\<close> raises \<^verbatim>\<open>SystemExit\<close>, which \<^verbatim>\<open>except Exception\<close> does not catch:
  it is kept apart from the exceptions.
\<close>

datatype stop = Exc pyexn | SysExit int

subsection \<open>The clock\<close>

text \<open>The local broken-down time that \<^verbatim>\<open>time.strftime\<close> formats.\<close>

record struct_time =
  tm_year :: nat
  tm_mon :: nat
  tm_mday :: nat
  tm_hour :: nat
  tm_min :: nat
  tm_sec :: nat

definition pad2 :: "nat \<Rightarrow> string" where
  "pad2 n = (if n < 10 then ''0'' @ str_nat n else str_nat n)"

text \<open>\<^verbatim>\<open>time.strftime("%Y%m%d_%H%M%S")\<close>.\<close>

definition strftime :: "struct_time \<Rightarrow> string" where
  "strftime t =
     str_nat (tm_year t) @ pad2 (tm_mon t) @ pad2 (tm_mday t) @ ''_'' @
     pad2 (tm_hour t) @ pad2 (tm_min t) @ pad2 (tm_sec t)"

text \<open>
  The fields of a reading of the clock: months, days, hours, minutes and seconds have at
  most two digits (a leap second reads 60).
\<close>

definition tm_valid :: "struct_time \<Rightarrow> bool" where
  "tm_valid t \<longleftrightarrow>
     1 \<le> tm_mon t \<and> tm_mon t \<le> 12 \<and> 1 \<le> tm_mday t \<and> tm_mday t \<le> 31 \<and>
     tm_hour t \<le> 23 \<and> tm_min t \<le> 59 \<and> tm_sec t \<le> 61"

text \<open>
  \<^verbatim>\<open>time.strftime\<close> without a time argument formats \<^verbatim>\<open>localtime()\<close>: the whole
  seconds since 1970 of the clock, moved by the offset from UTC that the time zone has at
  that instant, and split into the date of the Gregorian calendar and the time of day.
  The rules of the zone are a parameter, the function from the instant to the offset in
  seconds. Local times before 1970 are outside the model.
\<close>

definition is_leap :: "nat \<Rightarrow> bool" where
  "is_leap y \<longleftrightarrow> y mod 4 = 0 \<and> (y mod 100 \<noteq> 0 \<or> y mod 400 = 0)"

definition year_len :: "nat \<Rightarrow> nat" where
  "year_len y = (if is_leap y then 366 else 365)"

text \<open>The year of a day counted from the first day of year \<open>y\<close>, and the day in that year.\<close>

function split_year :: "nat \<Rightarrow> nat \<Rightarrow> nat \<times> nat" where
  "split_year y d = (if d < year_len y then (y, d) else split_year (Suc y) (d - year_len y))"
  by pat_completeness auto
termination
  by (relation "measure snd") (auto simp: year_len_def)

declare split_year.simps [simp del]

definition month_len :: "nat \<Rightarrow> nat \<Rightarrow> nat" where
  "month_len y m =
     (if m = 2 then (if is_leap y then 29 else 28)
      else if m = 4 \<or> m = 6 \<or> m = 9 \<or> m = 11 then 30 else 31)"

text \<open>The month of a day counted from the first day of month \<open>m\<close>, and the day in that month.\<close>

function split_month :: "nat \<Rightarrow> nat \<Rightarrow> nat \<Rightarrow> nat \<times> nat" where
  "split_month y m d =
     (if m < 12 \<and> month_len y m \<le> d then split_month y (Suc m) (d - month_len y m) else (m, d))"
  by pat_completeness auto
termination
  by (relation "measure (\<lambda>(y, m, d). 12 - m)") auto

declare split_month.simps [simp del]

definition localtime :: "(int \<Rightarrow> int) \<Rightarrow> int \<Rightarrow> struct_time" where
  "localtime tz t =
     (let secs = nat (t + tz t);
          yd = split_year 1970 (secs div 86400);
          md = split_month (fst yd) 1 (snd yd);
          sod = secs mod 86400
      in \<lparr>tm_year = fst yd, tm_mon = fst md, tm_mday = snd md + 1,
          tm_hour = sod div 3600, tm_min = sod mod 3600 div 60, tm_sec = sod mod 60\<rparr>)"

subsection \<open>Paths\<close>

text \<open>
  \<^verbatim>\<open>os.path.join(a, b)\<close> of \<^verbatim>\<open>posixpath\<close>: an absolute \<^verbatim>\<open>b\<close> replaces \<^verbatim>\<open>a\<close>, an
  empty \<^verbatim>\<open>a\<close> or one that ends with the separator takes \<^verbatim>\<open>b\<close> as it is, and
  \<^verbatim>\<open>None\<close> for \<^verbatim>\<open>a\<close> raises \<^verbatim>\<open>TypeError\<close>.
\<close>

definition posix_join :: "string \<Rightarrow> string \<Rightarrow> string" where
  "posix_join a b =
     (if b \<noteq> [] \<and> hd b = CHR ''/'' then b
      else if a = [] \<or> last a = CHR ''/'' then a @ b
      else a @ ''/'' @ b)"

definition os_path_join :: "string option \<Rightarrow> string \<Rightarrow> pyexn + string" where
  "os_path_join a b =
     (case a of
        None \<Rightarrow> Inl (TypeError ''expected str, bytes or os.PathLike object, not NoneType'')
      | Some d \<Rightarrow> Inr (posix_join d b))"

section \<open>The device handle and the session\<close>

text \<open>A pixel buffer, of which only the identity matters here.\<close>

type_synonym frame = nat

datatype cap_prop = CAP_PROP_FRAME_WIDTH | CAP_PROP_FRAME_HEIGHT | CAP_PROP_FPS | CAP_PROP_AUTOFOCUS

text \<open>
  The state of a \<^verbatim>\<open>cv2.VideoCapture\<close> object: whether it holds the device, and the
  values in force on the device.
\<close>

record capture =
  opened :: bool
  width :: real
  height :: real
  fps :: real

text \<open>The object \<^verbatim>\<open>USBCamera\<close>; \<^verbatim>\<open>camera = None\<close> until \<^verbatim>\<open>open_camera\<close> assigns it.\<close>

record session =
  device_index :: int
  frame_resolution :: "int \<times> int"
  frame_rate :: int
  camera :: "capture option"

text \<open>
  What the device and its driver answer, the parameter of the model: the constructor
  \<^verbatim>\<open>cv2.VideoCapture(index)\<close>, \<^verbatim>\<open>open(index)\<close> and \<^verbatim>\<open>set(prop, value)\<close> return the new
  state of the handle or raise. A busy or missing device shows as a handle that is not
  opened, a driver error as an exception. Besides these three, the calls that can raise
  are \<^verbatim>\<open>read\<close> and \<^verbatim>\<open>imwrite\<close>; \<^verbatim>\<open>release\<close>, \<^verbatim>\<open>putText\<close>, the window calls, the
  clock and the logger always return.
\<close>

record driver =
  VideoCapture :: "int \<Rightarrow> pyexn + capture"
  cap_open :: "capture \<Rightarrow> int \<Rightarrow> pyexn + capture"
  cap_set :: "capture \<Rightarrow> cap_prop \<Rightarrow> real \<Rightarrow> pyexn + capture"

datatype level = INFO | WARNING | ERROR

text \<open>
  The calls that act on the world, in the order the program makes them. The queries
  \<^verbatim>\<open>isOpened\<close> and \<^verbatim>\<open>get\<close> answer from the state of the handle and leave no event.
  \<^verbatim>\<open>PutText\<close> keeps the text and its position and leaves out the font, the scale, the
  colour and the thickness, which are constants of the program. \<^verbatim>\<open>Imwrite\<close> keeps the path
  and the JPEG quality when one is passed.
\<close>

datatype event =
    CallVideoCapture int
  | CallOpen int
  | CallSleep nat
  | CallSet cap_prop real
  | CallRead
  | CallRelease
  | PutText string "int \<times> int"
  | Imshow string
  | WaitKey int
  | DestroyAllWindows
  | Imwrite string "nat option"
  | Imread string
  | Log level string
  | Print string

subsection \<open>Statements: state, trace and exceptions\<close>

type_synonym st = "session \<times> event list"

type_synonym 'a py = "st \<Rightarrow> (stop + 'a) \<times> st"

definition ret :: "'a \<Rightarrow> 'a py" where
  "ret v = (\<lambda>st. (Inr v, st))"

definition raise :: "pyexn \<Rightarrow> 'a py" where
  "raise e = (\<lambda>st. (Inl (Exc e), st))"

definition sys_exit :: "int \<Rightarrow> 'a py" where
  "sys_exit n = (\<lambda>st. (Inl (SysExit n), st))"

definition seq :: "'a py \<Rightarrow> ('a \<Rightarrow> 'b py) \<Rightarrow> 'b py" where
  "seq m f = (\<lambda>st. case m st of (Inl e, st') \<Rightarrow> (Inl e, st') | (Inr v, st') \<Rightarrow> f v st')"

definition then_do :: "unit py \<Rightarrow> 'b py \<Rightarrow> 'b py" where
  "then_do m k = seq m (\<lambda>_. k)"

text \<open>\<^verbatim>\<open>try: body except Exception as e: handler\<close>.\<close>

definition try_except :: "unit py \<Rightarrow> (pyexn \<Rightarrow> unit py) \<Rightarrow> unit py" where
  "try_except body handler =
     (\<lambda>st. case body st of
        (Inl (Exc e), st') \<Rightarrow> handler e st'
      | (Inl (SysExit n), st') \<Rightarrow> (Inl (SysExit n), st')
      | (Inr v, st') \<Rightarrow> (Inr v, st'))"

definition emit :: "event \<Rightarrow> unit py" where
  "emit ev = (\<lambda>(s, tr). (Inr (), (s, tr @ [ev])))"

definition get_self :: "session py" where
  "get_self = (\<lambda>(s, tr). (Inr s, (s, tr)))"

definition set_camera :: "capture option \<Rightarrow> unit py" where
  "set_camera c = (\<lambda>(s, tr). (Inr (), (s\<lparr>camera := c\<rparr>, tr)))"

definition lift :: "pyexn + 'a \<Rightarrow> 'a py" where
  "lift r = (case r of Inl e \<Rightarrow> raise e | Inr v \<Rightarrow> ret v)"

definition logging :: "level \<Rightarrow> string \<Rightarrow> unit py" where
  "logging l msg = emit (Log l msg)"

subsection \<open>Methods of the handle\<close>

text \<open>
  A method called on \<^verbatim>\<open>self.camera\<close>: with \<^verbatim>\<open>None\<close> there, the attribute lookup raises
  \<^verbatim>\<open>AttributeError\<close> before anything is called.
\<close>

definition with_camera :: "string \<Rightarrow> (capture \<Rightarrow> 'a py) \<Rightarrow> 'a py" where
  "with_camera attr f =
     seq get_self (\<lambda>self. case camera self of None \<Rightarrow> raise (AttributeError attr) | Some c \<Rightarrow> f c)"

definition cam_isOpened :: "bool py" where
  "cam_isOpened = with_camera ''isOpened'' (\<lambda>c. ret (opened c))"

definition cam_open :: "driver \<Rightarrow> int \<Rightarrow> unit py" where
  "cam_open drv idx =
     with_camera ''open'' (\<lambda>c.
       then_do (emit (CallOpen idx))
         (seq (lift (cap_open drv c idx)) (\<lambda>c'. set_camera (Some c'))))"

definition cam_set :: "driver \<Rightarrow> cap_prop \<Rightarrow> real \<Rightarrow> unit py" where
  "cam_set drv p v =
     with_camera ''set'' (\<lambda>c.
       then_do (emit (CallSet p v))
         (seq (lift (cap_set drv c p v)) (\<lambda>c'. set_camera (Some c'))))"

text \<open>\<^verbatim>\<open>get\<close> answers 0 when the handle holds no device.\<close>

definition cap_get :: "capture \<Rightarrow> cap_prop \<Rightarrow> real" where
  "cap_get c p =
     (if \<not> opened c then 0
      else case p of
        CAP_PROP_FRAME_WIDTH \<Rightarrow> width c
      | CAP_PROP_FRAME_HEIGHT \<Rightarrow> height c
      | CAP_PROP_FPS \<Rightarrow> fps c
      | CAP_PROP_AUTOFOCUS \<Rightarrow> 0)"

definition cam_get :: "cap_prop \<Rightarrow> real py" where
  "cam_get p = with_camera ''get'' (\<lambda>c. ret (cap_get c p))"

text \<open>
  \<^verbatim>\<open>read\<close> takes the answer of the device when the handle holds it, and returns
  \<^verbatim>\<open>(False, None)\<close> when it does not. \<^verbatim>\<open>None\<close> stands for \<^verbatim>\<open>ret = False\<close>.
\<close>

definition frame_of :: "capture \<Rightarrow> pyexn + frame option \<Rightarrow> pyexn + frame option" where
  "frame_of c answer = (if opened c then answer else Inr None)"

definition cam_read :: "pyexn + frame option \<Rightarrow> frame option py" where
  "cam_read answer =
     with_camera ''read'' (\<lambda>c. then_do (emit CallRead) (lift (frame_of c answer)))"

text \<open>\<^verbatim>\<open>release\<close> gives the device back; on a handle without device it does nothing.\<close>

definition cam_release :: "unit py" where
  "cam_release =
     with_camera ''release'' (\<lambda>c.
       then_do (emit CallRelease) (set_camera (Some (c\<lparr>opened := False\<rparr>))))"

section \<open>The class USBCamera\<close>

definition init_session :: "int \<Rightarrow> int \<times> int \<Rightarrow> int \<Rightarrow> session" where
  "init_session idx res rate =
     \<lparr>device_index = idx, frame_resolution = res, frame_rate = rate, camera = None\<rparr>"

text \<open>The text of the info line that \<^verbatim>\<open>open_camera\<close> logs: the requested configuration.\<close>

definition config_text :: "session \<Rightarrow> string" where
  "config_text self =
     ''Initial Camera with configuration: index: '' @ str_int (device_index self) @
     '', resolution: '' @ fmt_pair (frame_resolution self) @
     '', frame rate: '' @ str_int (frame_rate self) @ ''fps''"

definition open_camera :: "driver \<Rightarrow> unit py" where
  "open_camera drv =
     try_except
       (seq get_self (\<lambda>self.
        then_do (emit (CallVideoCapture (device_index self)))
        (seq (lift (VideoCapture drv (device_index self))) (\<lambda>c.
        then_do (set_camera (Some c))
        (seq cam_isOpened (\<lambda>isop.
        then_do (if \<not> isop then cam_open drv (device_index self) else ret ())
        (then_do (emit (CallSleep 1))
        (then_do (cam_set drv CAP_PROP_FRAME_WIDTH (of_int (fst (frame_resolution self))))
        (then_do (cam_set drv CAP_PROP_FRAME_HEIGHT (of_int (snd (frame_resolution self))))
        (then_do (cam_set drv CAP_PROP_FPS (of_int (frame_rate self)))
        (then_do (cam_set drv CAP_PROP_AUTOFOCUS 1)
        (logging INFO (config_text self)))))))))))))
       (\<lambda>e. logging ERROR (''Failed to open the camera: '' @ exn_msg e))"

text \<open>
  \<^verbatim>\<open>if self.camera:\<close> tests the object for truth; a \<^verbatim>\<open>VideoCapture\<close> object is
  true, \<^verbatim>\<open>None\<close> is false.
\<close>

definition release_camera :: "unit py" where
  "release_camera =
     seq get_self (\<lambda>self.
       case camera self of
         None \<Rightarrow> ret ()
       | Some _ \<Rightarrow> then_do cam_release (logging INFO ''Camera resources have been released.''))"

definition del_session :: "unit py" where
  "del_session = release_camera"

subsection \<open>Preview\<close>

text \<open>
  One turn of the loop of \<^verbatim>\<open>show_live_camera\<close> asks the world three things: the clock
  (\<^verbatim>\<open>time.time()\<close>, a float), a frame (\<^verbatim>\<open>read()\<close>) and the keyboard
  (\<^verbatim>\<open>cv2.waitKey(1)\<close>). The timeout is a float, or an integer that a float holds exactly.
\<close>

record tick =
  tk_now :: real
  tk_read :: "pyexn + frame option"
  tk_key :: int

text \<open>Width, \<^verbatim>\<open>x\<close>, height, an at sign, rate and \<^verbatim>\<open>fps\<close>: the text of the print and of the frame-info line.\<close>

definition frame_info :: "int \<times> int \<times> int \<Rightarrow> string" where
  "frame_info act =
     str_int (fst act) @ ''x'' @ str_int (fst (snd act)) @ ''@'' @ str_int (snd (snd act)) @ ''fps''"

text \<open>
  The first lines of the body of the loop: the elapsed time is a difference of floats,
  and so is the time that remains before \<^verbatim>\<open>int\<close> truncates it.
\<close>

definition countdown :: "real \<Rightarrow> real \<Rightarrow> string" where
  "countdown timeout elapsed_time =
     (let remaining_time = max 0 (py_int (fsub timeout elapsed_time));
          remaining_minute = remaining_time div 60;
          remaining_second = remaining_time mod 60
      in ''Countdown Clock: '' @ fmt_02d remaining_minute @ '':'' @ fmt_02d remaining_second)"

text \<open>The body of \<^verbatim>\<open>while True\<close>; it returns whether \<^verbatim>\<open>break\<close> is reached. 113 is \<^verbatim>\<open>ord('q')\<close>.\<close>

definition preview_body :: "real \<Rightarrow> real \<Rightarrow> int \<times> int \<times> int \<Rightarrow> tick \<Rightarrow> bool py" where
  "preview_body timeout start_time act t =
     (let elapsed_time = fsub (tk_now t) start_time;
          countdown_clock = countdown timeout elapsed_time
      in seq get_self (\<lambda>self.
         seq (cam_read (tk_read t)) (\<lambda>r.
           case r of
             None \<Rightarrow>
               then_do cam_release
               (then_do (logging ERROR (''Can not receive camera_id:'' @ str_int (device_index self) @ '' frame''))
               (sys_exit 1))
           | Some frame \<Rightarrow>
               then_do (emit (PutText (''Camera ID: '' @ str_int (device_index self)) (25, 40)))
               (then_do (emit (PutText (''Frame Info: '' @ frame_info act) (25, 80)))
               (then_do (emit (PutText countdown_clock (25, 120)))
               (then_do (emit (PutText (''Enter '' @ [CHR 0x22] @ ''q'' @ [CHR 0x22] @ '' to close windows'') (25, 160)))
               (then_do (emit (Imshow ''frame''))
               (then_do (emit (WaitKey 1))
               (ret (tk_key t = 113 \<or> elapsed_time > timeout))))))))))"

text \<open>
  The loop runs on the answers of the world, one tick a turn. \<open>None\<close> says that the
  loop is still running when the answers end.
\<close>

fun preview_loop ::
  "real \<Rightarrow> real \<Rightarrow> int \<times> int \<times> int \<Rightarrow> tick list \<Rightarrow> st \<Rightarrow> ((stop + unit) \<times> st) option" where
  "preview_loop timeout start_time act [] st = None"
| "preview_loop timeout start_time act (t # ts) st =
     (case preview_body timeout start_time act t st of
        (Inl e, st') \<Rightarrow> Some (Inl e, st')
      | (Inr brk, st') \<Rightarrow>
          if brk then Some (Inr (), st') else preview_loop timeout start_time act ts st')"

text \<open>The three \<^verbatim>\<open>get\<close> calls and the \<^verbatim>\<open>print\<close> before the loop.\<close>

definition preview_info :: "(int \<times> int \<times> int) py" where
  "preview_info =
     seq (cam_get CAP_PROP_FRAME_WIDTH) (\<lambda>w.
     seq (cam_get CAP_PROP_FRAME_HEIGHT) (\<lambda>h.
     seq (cam_get CAP_PROP_FPS) (\<lambda>f.
     then_do (emit (Print (''Actual camera info: '' @ frame_info (py_int w, py_int h, py_int f))))
     (ret (py_int w, py_int h, py_int f)))))"

definition show_live_camera :: "real \<Rightarrow> real \<Rightarrow> tick list \<Rightarrow> st \<Rightarrow> ((stop + unit) \<times> st) option" where
  "show_live_camera timeout start_time ticks st =
     (case preview_info st of
        (Inl e, st') \<Rightarrow> Some (Inl e, st')
      | (Inr act, st') \<Rightarrow>
          (case preview_loop timeout start_time act ticks st' of
             None \<Rightarrow> None
           | Some (Inl e, st'') \<Rightarrow> Some (Inl e, st'')
           | Some (Inr _, st'') \<Rightarrow> Some (then_do (emit DestroyAllWindows) (emit (WaitKey 1)) st'')))"

subsection \<open>Capture\<close>

text \<open>
  What the world answers during one \<^verbatim>\<open>take_picture\<close>: the frame read, the clock, and
  the file calls \<^verbatim>\<open>cv2.imwrite\<close> and \<^verbatim>\<open>cv2.imread\<close> (\<^verbatim>\<open>imread\<close> returns \<^verbatim>\<open>None\<close> for a
  file it cannot read).
\<close>

record capture_io =
  io_read :: "pyexn + frame option"
  io_now :: struct_time
  io_imwrite :: "pyexn + bool"
  io_imread :: "frame option"
  io_rewrite :: "pyexn + bool"

definition imwrite :: "string \<Rightarrow> nat option \<Rightarrow> pyexn + bool \<Rightarrow> unit py" where
  "imwrite path quality answer =
     then_do (emit (Imwrite path quality)) (seq (lift answer) (\<lambda>_. ret ()))"

text \<open>
  \<^verbatim>\<open>cv2.putText\<close> returns also when the picture is \<^verbatim>\<open>None\<close>; it is \<^verbatim>\<open>cv2.imwrite\<close> that
  raises on a missing picture.
\<close>

definition rewrite_answer :: "capture_io \<Rightarrow> pyexn + bool" where
  "rewrite_answer io =
     (case io_imread io of
        None \<Rightarrow> Inl (CvError ''imwrite: img is empty'')
      | Some _ \<Rightarrow> io_rewrite io)"

definition add_pic_mark :: "capture_io \<Rightarrow> string \<Rightarrow> string \<Rightarrow> unit py" where
  "add_pic_mark io file_path text =
     seq get_self (\<lambda>self.
     then_do (emit (Imread file_path))
     (then_do (emit (PutText (''Camera ID: '' @ str_int (device_index self)) (25, 40)))
     (then_do (emit (PutText text (25, 80)))
     (imwrite file_path None (rewrite_answer io)))))"

definition is_open :: "session \<Rightarrow> bool" where
  "is_open self = (case camera self of None \<Rightarrow> False | Some c \<Rightarrow> opened c)"

text \<open>The text \<^verbatim>\<open>{test_case_name}_{now_time}_{count}\<close>, which the method builds three times.\<close>

definition picture_stem :: "pyval \<Rightarrow> struct_time \<Rightarrow> pyval \<Rightarrow> string" where
  "picture_stem test_case_name now count =
     fmt test_case_name @ ''_'' @ strftime now @ ''_'' @ fmt count"

text \<open>The \<^verbatim>\<open>try\<close> statement of \<^verbatim>\<open>take_picture\<close>: read, name, write, mark.\<close>

definition capture_try ::
  "capture_io \<Rightarrow> string option \<Rightarrow> pyval \<Rightarrow> pyval \<Rightarrow> bool \<Rightarrow> unit py" where
  "capture_try io save_path test_case_name count pic_mark =
     try_except
       (seq (cam_read (io_read io)) (\<lambda>r.
          case r of
            Some frame \<Rightarrow>
              (let stem = picture_stem test_case_name (io_now io) count
               in seq (lift (os_path_join save_path (stem @ ''.jpg''))) (\<lambda>filename.
                  then_do (imwrite filename (Some 95) (io_imwrite io))
                  (then_do (logging INFO (''Image saved as: '' @ stem @ ''.jpg''))
                  (if pic_mark then add_pic_mark io filename stem else ret ()))))
          | None \<Rightarrow> logging WARNING ''Failed to capture image from camera.''))
       (\<lambda>e. logging ERROR (''Error capturing and saving image: '' @ exn_msg e))"

text \<open>
  The guard \<^verbatim>\<open>self.camera is None or not self.camera.isOpened()\<close> is the negation of
  \<open>is_open\<close>.
\<close>

definition take_picture ::
  "driver \<Rightarrow> capture_io \<Rightarrow> string option \<Rightarrow> pyval \<Rightarrow> pyval \<Rightarrow> bool \<Rightarrow> unit py" where
  "take_picture drv io save_path test_case_name count pic_mark =
     then_do
       (seq get_self (\<lambda>self.
          if \<not> is_open self
          then then_do (logging WARNING ''Camera is not opened. Trying to open it...'') (open_camera drv)
          else ret ()))
       (capture_try io save_path test_case_name count pic_mark)"

subsection \<open>Ticks of the preview\<close>

text \<open>A tick whose frame arrives, and a tick at which the condition of \<^verbatim>\<open>break\<close> holds.\<close>

definition shown :: "capture \<Rightarrow> tick \<Rightarrow> bool" where
  "shown c t = (case frame_of c (tk_read t) of Inr (Some _) \<Rightarrow> True | _ \<Rightarrow> False)"

definition breaks :: "real \<Rightarrow> real \<Rightarrow> tick \<Rightarrow> bool" where
  "breaks timeout start_time t = (tk_key t = 113 \<or> fsub (tk_now t) start_time > timeout)"

text \<open>The events of a turn that shows a frame, for a device index and the values got.\<close>

definition shown_events :: "int \<Rightarrow> int \<times> int \<times> int \<Rightarrow> real \<Rightarrow> real \<Rightarrow> tick \<Rightarrow> event list" where
  "shown_events idx act timeout start_time t =
     [CallRead,
      PutText (''Camera ID: '' @ str_int idx) (25, 40),
      PutText (''Frame Info: '' @ frame_info act) (25, 80),
      PutText (countdown timeout (fsub (tk_now t) start_time)) (25, 120),
      PutText (''Enter '' @ [CHR 0x22] @ ''q'' @ [CHR 0x22] @ '' to close windows'') (25, 160),
      Imshow ''frame'', WaitKey 1]"

text \<open>The values that \<^verbatim>\<open>get\<close> returns, after \<^verbatim>\<open>int\<close>.\<close>

definition actual :: "capture \<Rightarrow> int \<times> int \<times> int" where
  "actual c =
     (py_int (cap_get c CAP_PROP_FRAME_WIDTH), py_int (cap_get c CAP_PROP_FRAME_HEIGHT),
      py_int (cap_get c CAP_PROP_FPS))"

subsection \<open>The acquisition in open_camera\<close>

text \<open>
  For a handle \<open>c\<close> that the constructor returned: the handle after the test of
  \<^verbatim>\<open>isOpened\<close> and the call of \<^verbatim>\<open>open\<close> that may follow, and the acquisition calls made.
\<close>

definition acquired :: "driver \<Rightarrow> int \<Rightarrow> capture \<Rightarrow> pyexn + capture" where
  "acquired drv idx c = (if opened c then Inr c else cap_open drv c idx)"

definition acquire_calls :: "int \<Rightarrow> capture \<Rightarrow> event list" where
  "acquire_calls idx c = CallVideoCapture idx # (if opened c then [] else [CallOpen idx])"

text \<open>Outcome and trace of a preview, without the session.\<close>

definition seen :: "((stop + unit) \<times> st) option \<Rightarrow> ((stop + unit) \<times> event list) option" where
  "seen r = map_option (\<lambda>x. (fst x, snd (snd x))) r"

subsection \<open>Running a method\<close>

text \<open>A method starts on a session with an empty trace.\<close>

definition run :: "'a py \<Rightarrow> session \<Rightarrow> (stop + 'a) \<times> st" where
  "run m s = m (s, [])"

definition outcome :: "(stop + 'a) \<times> st \<Rightarrow> stop + 'a" where
  "outcome r = fst r"

definition final :: "(stop + 'a) \<times> st \<Rightarrow> session" where
  "final r = fst (snd r)"

definition trace :: "(stop + 'a) \<times> st \<Rightarrow> event list" where
  "trace r = snd (snd r)"

fun is_acquire :: "event \<Rightarrow> bool" where
  "is_acquire (CallVideoCapture _) = True"
| "is_acquire (CallOpen _) = True"
| "is_acquire _ = False"

fun is_ctor :: "event \<Rightarrow> bool" where
  "is_ctor (CallVideoCapture _) = True"
| "is_ctor _ = False"

fun is_read :: "event \<Rightarrow> bool" where
  "is_read CallRead = True"
| "is_read _ = False"

fun is_write :: "event \<Rightarrow> bool" where
  "is_write (Imwrite _ _) = True"
| "is_write _ = False"

text \<open>A warning or an error in the log.\<close>

fun is_trouble :: "event \<Rightarrow> bool" where
  "is_trouble (Log WARNING _) = True"
| "is_trouble (Log ERROR _) = True"
| "is_trouble _ = False"

definition count_ev :: "(event \<Rightarrow> bool) \<Rightarrow> event list \<Rightarrow> nat" where
  "count_ev P tr = length (filter P tr)"

subsection \<open>Devices for the examples\<close>

definition vga :: capture where
  "vga = \<lparr>opened = True, width = 640, height = 480, fps = 30\<rparr>"

text \<open>A device that opens and keeps 640x480 at 30 frames a second, whatever is asked.\<close>

definition fixed_driver :: driver where
  "fixed_driver =
     \<lparr>VideoCapture = (\<lambda>idx. Inr vga),
      cap_open = (\<lambda>c idx. Inr (c\<lparr>opened := True\<rparr>)),
      cap_set = (\<lambda>c p v. Inr c)\<rparr>"

text \<open>A busy device: the constructor and \<^verbatim>\<open>open\<close> return a handle without the device.\<close>

definition busy_driver :: driver where
  "busy_driver =
     \<lparr>VideoCapture = (\<lambda>idx. Inr (vga\<lparr>opened := False\<rparr>)),
      cap_open = (\<lambda>c idx. Inr c),
      cap_set = (\<lambda>c p v. Inr c)\<rparr>"

text \<open>A driver whose constructor raises.\<close>

definition broken_driver :: driver where
  "broken_driver =
     \<lparr>VideoCapture = (\<lambda>idx. Inl (CvError ''can not open camera by index'')),
      cap_open = (\<lambda>c idx. Inr c),
      cap_set = (\<lambda>c p v. Inr c)\<rparr>"

definition cam0 :: session where
  "cam0 = init_session 0 (1280, 720) 15"

definition noon :: struct_time where
  "noon = \<lparr>tm_year = 2024, tm_mon = 5, tm_mday = 17, tm_hour = 12, tm_min = 0, tm_sec = 0\<rparr>"

definition good_io :: capture_io where
  "good_io =
     \<lparr>io_read = Inr (Some 7), io_now = noon, io_imwrite = Inr True,
      io_imread = Some 7, io_rewrite = Inr True\<rparr>"

definition bad_read_io :: capture_io where
  "bad_read_io = good_io\<lparr>io_read := Inr None\<rparr>"

definition opened_cam :: session where
  "opened_cam = cam0\<lparr>camera := Some vga\<rparr>"

text \<open>A tick with a frame at a given time and key, and a tick whose read fails.\<close>

definition frame_tick :: "real \<Rightarrow> int \<Rightarrow> tick" where
  "frame_tick now k = \<lparr>tk_now = now, tk_read = Inr (Some 7), tk_key = k\<rparr>"

definition lost_tick :: "real \<Rightarrow> tick" where
  "lost_tick now = \<lparr>tk_now = now, tk_read = Inr None, tk_key = - 1\<rparr>"

text \<open>The floats nearest to 0.1 and to 60.1.\<close>

definition d01 :: real where
  "d01 = 3602879701896397 / 2 ^ 55"

definition d601 :: real where
  "d601 = 8458323050155213 / 2 ^ 47"

text \<open>
  The offsets of the zone Europe/Berlin around 27 October 2024: two hours until
  01:00 UTC of that day, one hour from then on.
\<close>

definition berlin :: "int \<Rightarrow> int" where
  "berlin t = (if t < 1729990800 then 7200 else 3600)"

definition io_at :: "int \<Rightarrow> capture_io" where
  "io_at t = good_io\<lparr>io_now := localtime berlin t\<rparr>"

section \<open>Basic facts\<close>

lemmas py_defs = ret_def raise_def sys_exit_def seq_def then_do_def try_except_def emit_def
  get_self_def set_camera_def lift_def logging_def with_camera_def

lemmas cam_defs = cam_isOpened_def cam_open_def cam_set_def cam_get_def cam_read_def cam_release_def

lemmas cap_defs = capture_try_def imwrite_def rewrite_answer_def add_pic_mark_def os_path_join_def

lemmas run_defs = run_def outcome_def final_def trace_def

lemmas example_defs = cam0_def opened_cam_def init_session_def vga_def fixed_driver_def
  busy_driver_def broken_driver_def good_io_def bad_read_io_def noon_def frame_tick_def
  lost_tick_def io_at_def

subsection \<open>Decimal strings\<close>

lemma digit_char_inj: "a < 10 \<Longrightarrow> b < 10 \<Longrightarrow> digit_char a = digit_char b \<Longrightarrow> a = b"
proof -
  assume a: "a < 10" and b: "b < 10" and e: "digit_char a = digit_char b"
  have d: "distinct ''0123456789''" by simp
  have l: "length ''0123456789'' = 10" by simp
  from e have "''0123456789'' ! a = ''0123456789'' ! b" by (simp add: digit_char_def)
  with d a b l show "a = b" by (metis nth_eq_iff_index_eq)
qed

lemma str_nat_nonempty: "str_nat n \<noteq> []"
  by (subst str_nat.simps) simp

lemma str_nat_small: "n < 10 \<Longrightarrow> str_nat n = [digit_char n]"
  by (subst str_nat.simps) simp

lemma str_nat_big: "\<not> n < 10 \<Longrightarrow> str_nat n = str_nat (n div 10) @ [digit_char (n mod 10)]"
  by (subst str_nat.simps) simp

lemma str_nat_inj: "str_nat n = str_nat m \<Longrightarrow> n = m"
proof (induction n arbitrary: m rule: str_nat.induct)
  case (1 n)
  show ?case
  proof (cases "n < 10")
    case True
    with "1.prems" have e: "str_nat m = [digit_char n]" by (simp add: str_nat_small)
    have "m < 10"
    proof (rule ccontr)
      assume "\<not> m < 10"
      with e have "str_nat (m div 10) @ [digit_char (m mod 10)] = [digit_char n]"
        by (simp add: str_nat_big)
      then show False using str_nat_nonempty [of "m div 10"] by simp
    qed
    with e True show ?thesis by (simp add: str_nat_small digit_char_inj)
  next
    case False
    with "1.prems" have e: "str_nat m = str_nat (n div 10) @ [digit_char (n mod 10)]"
      by (simp add: str_nat_big)
    have m: "\<not> m < 10"
    proof
      assume "m < 10"
      with e show False using str_nat_nonempty [of "n div 10"] by (simp add: str_nat_small)
    qed
    with e have "str_nat (m div 10) @ [digit_char (m mod 10)] =
                 str_nat (n div 10) @ [digit_char (n mod 10)]"
      by (simp add: str_nat_big)
    then have a: "str_nat (n div 10) = str_nat (m div 10)"
      and b: "digit_char (n mod 10) = digit_char (m mod 10)" by simp_all
    from "1.IH" [OF False a] have "n div 10 = m div 10" .
    moreover from b have "n mod 10 = m mod 10" by (simp add: digit_char_inj)
    ultimately show ?thesis by (metis div_mult_mod_eq)
  qed
qed

lemma pad2_digits: "n < 100 \<Longrightarrow> pad2 n = [digit_char (n div 10), digit_char (n mod 10)]"
  by (cases "n < 10") (simp_all add: pad2_def str_nat_small str_nat_big digit_char_def)

lemma pad2_inj: "n < 100 \<Longrightarrow> m < 100 \<Longrightarrow> pad2 n = pad2 m \<Longrightarrow> n = m"
proof -
  assume n: "n < 100" and m: "m < 100" and e: "pad2 n = pad2 m"
  from n m have "n div 10 < 10" "m div 10 < 10" by simp_all
  with e n m have "n div 10 = m div 10" "n mod 10 = m mod 10"
    by (simp_all add: pad2_digits digit_char_inj)
  then show "n = m" by (metis div_mult_mod_eq)
qed

lemma strftime_inj:
  assumes a: "tm_valid a" and b: "tm_valid b" and e: "strftime a = strftime b"
  shows "a = b"
proof -
  from a have la: "tm_mon a < 100" "tm_mday a < 100" "tm_hour a < 100" "tm_min a < 100" "tm_sec a < 100"
    by (simp_all add: tm_valid_def)
  from b have lb: "tm_mon b < 100" "tm_mday b < 100" "tm_hour b < 100" "tm_min b < 100" "tm_sec b < 100"
    by (simp_all add: tm_valid_def)
  let ?tail = "\<lambda>t. pad2 (tm_mon t) @ pad2 (tm_mday t) @ ''_'' @ pad2 (tm_hour t) @ pad2 (tm_min t) @ pad2 (tm_sec t)"
  have len: "length (?tail a) = length (?tail b)"
    using la lb by (simp add: pad2_digits)
  from e have "str_nat (tm_year a) @ ?tail a = str_nat (tm_year b) @ ?tail b"
    by (simp add: strftime_def)
  with len have "str_nat (tm_year a) = str_nat (tm_year b) \<and> ?tail a = ?tail b"
    by (metis append_eq_append_conv)
  then have y: "str_nat (tm_year a) = str_nat (tm_year b)" and t: "?tail a = ?tail b"
    by blast+
  from t la lb have "pad2 (tm_mon a) = pad2 (tm_mon b)" "pad2 (tm_mday a) = pad2 (tm_mday b)"
    "pad2 (tm_hour a) = pad2 (tm_hour b)" "pad2 (tm_min a) = pad2 (tm_min b)"
    "pad2 (tm_sec a) = pad2 (tm_sec b)"
    by (simp_all add: pad2_digits)
  with la lb have "tm_mon a = tm_mon b" "tm_mday a = tm_mday b" "tm_hour a = tm_hour b"
    "tm_min a = tm_min b" "tm_sec a = tm_sec b"
    by (simp_all add: pad2_inj)
  moreover from y have "tm_year a = tm_year b" by (rule str_nat_inj)
  ultimately show ?thesis by simp
qed

lemma posix_join_inj:
  "take 1 x = take 1 y \<Longrightarrow> posix_join d x = posix_join d y \<Longrightarrow> x = y"
  by (cases x; cases y) (auto simp: posix_join_def split: if_splits)

lemma posix_join_plain:
  "d \<noteq> [] \<Longrightarrow> last d \<noteq> CHR ''/'' \<Longrightarrow> take 1 b \<noteq> ''/'' \<Longrightarrow> posix_join d b = d @ ''/'' @ b"
  by (cases b) (auto simp: posix_join_def)


subsection \<open>Floats\<close>

lemma round_half_even_int: "round_half_even (of_int n) = n"
  by (simp add: round_half_even_def)

lemma floor_log2_bounds:
  assumes "0 < x" and "2 ^ k \<le> x" and "x < 2 ^ Suc k"
  shows "\<lfloor>log 2 x\<rfloor> = int k"
proof -
  have "2 powr (real_of_int (int k)) \<le> x" using assms(2) by (simp add: powr_realpow)
  moreover have "x < 2 powr (real_of_int (int k + 1))"
  proof -
    have "real_of_int (int k + 1) = real (Suc k)" by simp
    then show ?thesis using assms(3) by (simp only: powr_realpow zero_less_numeral)
  qed
  ultimately show ?thesis using assms(1) by (simp add: floor_log_eq_powr_iff)
qed

lemma ulp_exp_binade:
  assumes "2 ^ k \<le> \<bar>x\<bar>" and "\<bar>x\<bar> < 2 ^ Suc k"
  shows "ulp_exp x = int k - 52"
proof -
  have "0 < \<bar>x\<bar>" using assms(1) by (smt (verit) zero_less_power)
  from floor_log2_bounds [OF this assms] show ?thesis by (simp add: ulp_exp_def)
qed

lemma fl_whole:
  assumes "2 ^ k \<le> \<bar>x\<bar>" and "\<bar>x\<bar> < 2 ^ Suc k" and "k \<le> 52" and "x = of_int n"
  shows "fl x = x"
proof -
  from assms(1) have nz: "x \<noteq> 0" by (smt (verit) zero_less_power)
  have e: "ulp_exp x = int k - 52" using assms(1,2) by (rule ulp_exp_binade)
  have p: "pow2 (int k - 52) = 1 / 2 ^ (52 - k)"
  proof (cases "k = 52")
    case True then show ?thesis by (simp add: pow2_def)
  next
    case False
    with assms(3) have "\<not> 0 \<le> int k - 52" "nat (- (int k - 52)) = 52 - k" by simp_all
    then show ?thesis by (simp add: pow2_def)
  qed
  have "x / pow2 (int k - 52) = of_int (n * 2 ^ (52 - k))"
    using assms(4) by (simp add: p)
  then have "round_half_even (x / pow2 (int k - 52)) = n * 2 ^ (52 - k)"
    by (simp only: round_half_even_int)
  then have "fl x = of_int (n * 2 ^ (52 - k)) * (1 / 2 ^ (52 - k))"
    using nz by (simp add: fl_def e p)
  also have "\<dots> = x" using assms(4) by simp
  finally show ?thesis .
qed

lemma fl_0: "fl 0 = 0" by (simp add: fl_def)

lemma fsub_d601_d01: "fsub d601 d01 = 60"
proof -
  let ?x = "d601 - d01"
  have x: "?x = 2161727821137838131 / 2 ^ 55" by (simp add: d601_def d01_def)
  have b: "2 ^ 5 \<le> \<bar>?x\<bar>" "\<bar>?x\<bar> < 2 ^ Suc 5" by (simp_all add: x)
  have e: "ulp_exp ?x = - 47" using ulp_exp_binade [OF b] by simp
  have p: "pow2 (- 47) = 1 / 2 ^ 47" by (simp add: pow2_def)
  have q: "?x / pow2 (- 47) = 8444249301319680 + 51 / 256" by (simp add: x p)
  have f: "\<lfloor>(8444249301319680::real) + 51 / 256\<rfloor> = 8444249301319680" by linarith
  have r: "round_half_even (?x / pow2 (- 47)) = 8444249301319680"
    unfolding q round_half_even_def Let_def f by simp
  have "?x \<noteq> 0" by (simp add: x)
  then have "fl ?x = of_int (round_half_even (?x / pow2 (ulp_exp ?x))) * pow2 (ulp_exp ?x)"
    by (simp add: fl_def)
  also have "\<dots> = of_int 8444249301319680 * pow2 (- 47)" by (simp only: e r)
  also have "\<dots> = 60" by (simp add: p)
  finally show ?thesis by (simp add: fsub_def)
qed

lemma fl_1: "fl 1 = 1"
  by (rule fl_whole [where k = 0 and n = 1]) simp_all

lemma fl_60: "fl 60 = 60"
  by (rule fl_whole [where k = 5 and n = 60]) simp_all

lemma fl_61: "fl 61 = 61"
  by (rule fl_whole [where k = 5 and n = 61]) simp_all

lemmas fl_values = fl_0 fl_1 fl_60 fl_61

subsection \<open>The calendar\<close>

lemma split_year_sum:
  "split_year y d = (y', r) \<Longrightarrow> y \<le> y' \<and> r < year_len y' \<and> d = r + (\<Sum>k = y..<y'. year_len k)"
proof (induction y d rule: split_year.induct)
  case (1 y d)
  show ?case
  proof (cases "d < year_len y")
    case True
    with "1.prems" show ?thesis by (simp add: split_year.simps [of y d])
  next
    case False
    with "1.prems" have "split_year (Suc y) (d - year_len y) = (y', r)"
      by (simp add: split_year.simps [of y d])
    from "1.IH" [OF False this]
    have a: "Suc y \<le> y'" and b: "r < year_len y'"
      and c: "d - year_len y = r + (\<Sum>k = Suc y..<y'. year_len k)" by simp_all
    from a have "(\<Sum>k = y..<y'. year_len k) = year_len y + (\<Sum>k = Suc y..<y'. year_len k)"
      by (simp add: sum.atLeast_Suc_lessThan)
    with a b c False show ?thesis by simp
  qed
qed

lemma split_year_inj: "split_year y d1 = split_year y d2 \<Longrightarrow> d1 = d2"
proof -
  assume e: "split_year y d1 = split_year y d2"
  obtain y' r where a: "split_year y d1 = (y', r)" by (cases "split_year y d1")
  with e have b: "split_year y d2 = (y', r)" by simp
  from split_year_sum [OF a] split_year_sum [OF b] show "d1 = d2" by simp
qed

lemma split_month_sum:
  "split_month y m d = (m', r) \<Longrightarrow>
   m \<le> m' \<and> (m \<le> 12 \<longrightarrow> m' \<le> 12) \<and> (m' < 12 \<longrightarrow> r < month_len y m') \<and>
   d = r + (\<Sum>k = m..<m'. month_len y k)"
proof (induction y m d rule: split_month.induct)
  case (1 y m d)
  show ?case
  proof (cases "m < 12 \<and> month_len y m \<le> d")
    case False
    with "1.prems" have "m' = m" "r = d" by (simp_all add: split_month.simps [of y m d])
    with False show ?thesis by auto
  next
    case True
    with "1.prems" have "split_month y (Suc m) (d - month_len y m) = (m', r)"
      by (simp add: split_month.simps [of y m d])
    from "1.IH" [OF True this]
    have a: "Suc m \<le> m'" and a': "Suc m \<le> 12 \<longrightarrow> m' \<le> 12"
      and b: "m' < 12 \<longrightarrow> r < month_len y m'"
      and c: "d - month_len y m = r + (\<Sum>k = Suc m..<m'. month_len y k)" by simp_all
    from a have "(\<Sum>k = m..<m'. month_len y k) = month_len y m + (\<Sum>k = Suc m..<m'. month_len y k)"
      by (simp add: sum.atLeast_Suc_lessThan)
    with a a' b c True show ?thesis by simp
  qed
qed

lemma split_month_inj: "split_month y m d1 = split_month y m d2 \<Longrightarrow> d1 = d2"
proof -
  assume e: "split_month y m d1 = split_month y m d2"
  obtain m' r where a: "split_month y m d1 = (m', r)" by (cases "split_month y m d1")
  with e have b: "split_month y m d2 = (m', r)" by simp
  from split_month_sum [OF a] split_month_sum [OF b] show "d1 = d2" by simp
qed

lemma months_before_december: "(\<Sum>k = 1..<12. month_len y k) + 31 = year_len y"
proof -
  have "{1..<12::nat} = {1, 2, 3, 4, 5, 6, 7, 8, 9, 10, 11}"
  proof (rule set_eqI)
    fix x :: nat
    show "x \<in> {1..<12} \<longleftrightarrow> x \<in> {1, 2, 3, 4, 5, 6, 7, 8, 9, 10, 11}"
      by (simp only: atLeastLessThan_iff insert_iff empty_iff) arith
  qed
  then show ?thesis by (simp add: month_len_def year_len_def)
qed

lemma month_len_le: "month_len y m \<le> 31"
  by (simp add: month_len_def)

lemma split_month_day:
  assumes "split_month y 1 d = (m, r)" and "d < year_len y"
  shows "1 \<le> m \<and> m \<le> 12 \<and> r < 31"
proof -
  from split_month_sum [OF assms(1)]
  have a: "1 \<le> m" and b: "m \<le> 12" and c: "m < 12 \<longrightarrow> r < month_len y m"
    and s: "d = r + (\<Sum>k = 1..<m. month_len y k)" by simp_all
  have "r < 31"
  proof (cases "m < 12")
    case True
    with c have "r < month_len y m" by simp
    with month_len_le [of y m] show ?thesis by simp
  next
    case False
    with b have "m = 12" by simp
    with s assms(2) months_before_december [of y] show ?thesis by simp
  qed
  with a b show ?thesis by simp
qed

lemma localtime_valid: "tm_valid (localtime tz t)"
proof -
  let ?secs = "nat (t + tz t)"
  obtain y doy where yd: "split_year 1970 (?secs div 86400) = (y, doy)"
    by (cases "split_year 1970 (?secs div 86400)")
  obtain m r where md: "split_month y 1 doy = (m, r)" by (cases "split_month y 1 doy")
  from split_year_sum [OF yd] have "doy < year_len y" by simp
  from split_month_day [OF md this] have a: "1 \<le> m" "m \<le> 12" "r < 31" by simp_all
  have sod: "?secs mod 86400 < 86400" by simp
  then have h: "?secs mod 86400 div 3600 \<le> 23" by arith
  have "?secs mod 86400 mod 3600 < 3600" by simp
  then have mi: "?secs mod 86400 mod 3600 div 60 \<le> 59" by arith
  have "?secs mod 86400 mod 60 < 60" by simp
  then have se: "?secs mod 86400 mod 60 \<le> 61" by arith
  have l: "localtime tz t =
      \<lparr>tm_year = y, tm_mon = m, tm_mday = r + 1, tm_hour = ?secs mod 86400 div 3600,
       tm_min = ?secs mod 86400 mod 3600 div 60, tm_sec = ?secs mod 86400 mod 60\<rparr>"
    unfolding localtime_def Let_def yd fst_conv snd_conv md by (rule refl)
  show ?thesis unfolding l tm_valid_def using a h mi se by simp
qed

lemma localtime_inj:
  assumes "localtime tz t1 = localtime tz t2" and "tz t1 = tz t2"
    and "0 \<le> t1 + tz t1" and "0 \<le> t2 + tz t2"
  shows "t1 = t2"
proof -
  let ?a = "nat (t1 + tz t1)" and ?b = "nat (t2 + tz t2)"
  obtain ya da where a: "split_year 1970 (?a div 86400) = (ya, da)"
    by (cases "split_year 1970 (?a div 86400)")
  obtain yb db where b: "split_year 1970 (?b div 86400) = (yb, db)"
    by (cases "split_year 1970 (?b div 86400)")
  have la: "localtime tz t1 =
      \<lparr>tm_year = ya, tm_mon = fst (split_month ya 1 da), tm_mday = snd (split_month ya 1 da) + 1,
       tm_hour = ?a mod 86400 div 3600, tm_min = ?a mod 86400 mod 3600 div 60,
       tm_sec = ?a mod 86400 mod 60\<rparr>"
    unfolding localtime_def Let_def a fst_conv snd_conv by (rule refl)
  have lb: "localtime tz t2 =
      \<lparr>tm_year = yb, tm_mon = fst (split_month yb 1 db), tm_mday = snd (split_month yb 1 db) + 1,
       tm_hour = ?b mod 86400 div 3600, tm_min = ?b mod 86400 mod 3600 div 60,
       tm_sec = ?b mod 86400 mod 60\<rparr>"
    unfolding localtime_def Let_def b fst_conv snd_conv by (rule refl)
  have y: "ya = yb"
    using arg_cong [OF assms(1), of tm_year] unfolding la lb by simp
  have m1: "fst (split_month ya 1 da) = fst (split_month yb 1 db)"
    using arg_cong [OF assms(1), of tm_mon] unfolding la lb by simp
  have m2: "snd (split_month ya 1 da) = snd (split_month yb 1 db)"
    using arg_cong [OF assms(1), of tm_mday] unfolding la lb by simp
  have h: "?a mod 86400 div 3600 = ?b mod 86400 div 3600"
    using arg_cong [OF assms(1), of tm_hour] unfolding la lb by simp
  have mi: "?a mod 86400 mod 3600 div 60 = ?b mod 86400 mod 3600 div 60"
    using arg_cong [OF assms(1), of tm_min] unfolding la lb by simp
  have s: "?a mod 86400 mod 60 = ?b mod 86400 mod 60"
    using arg_cong [OF assms(1), of tm_sec] unfolding la lb by simp
  from m1 m2 y have "split_month ya 1 da = split_month ya 1 db" by (simp add: prod_eq_iff)
  then have "da = db" by (rule split_month_inj)
  with a b y have "split_year 1970 (?a div 86400) = split_year 1970 (?b div 86400)" by simp
  then have d: "?a div 86400 = ?b div 86400" by (rule split_year_inj)
  have "?a mod 86400 mod 3600 mod 60 = ?b mod 86400 mod 3600 mod 60"
    using s by (simp add: mod_mod_cancel)
  with mi have "?a mod 86400 mod 3600 = ?b mod 86400 mod 3600"
    by (metis div_mult_mod_eq)
  with h have "?a mod 86400 = ?b mod 86400"
    by (metis div_mult_mod_eq)
  with d have "?a = ?b" by (metis div_mult_mod_eq)
  with assms(2,3,4) show ?thesis by simp
qed

lemma berlin_repeat:
  "localtime berlin 1729989000 =
     \<lparr>tm_year = 2024, tm_mon = 10, tm_mday = 27, tm_hour = 2, tm_min = 30, tm_sec = 0\<rparr>"
  "localtime berlin 1729992600 =
     \<lparr>tm_year = 2024, tm_mon = 10, tm_mday = 27, tm_hour = 2, tm_min = 30, tm_sec = 0\<rparr>"
  by (simp_all add: localtime_def berlin_def Let_def split_year.simps split_month.simps
      year_len_def month_len_def is_leap_def)

subsection \<open>The methods, case by case\<close>

lemma release_camera_None: "camera s = None \<Longrightarrow> release_camera (s, tr) = (Inr (), (s, tr))"
  by (simp add: release_camera_def py_defs)

lemma release_camera_Some:
  "camera s = Some c \<Longrightarrow>
   release_camera (s, tr) =
     (Inr (), (s\<lparr>camera := Some (c\<lparr>opened := False\<rparr>)\<rparr>,
               tr @ [CallRelease, Log INFO ''Camera resources have been released.'']))"
  by (simp add: release_camera_def py_defs cam_defs)

lemma open_camera_returns: "fst (open_camera drv st) = Inr ()"
  by (cases st) (simp add: open_camera_def py_defs cam_defs split: sum.splits option.splits prod.splits stop.splits)

lemma open_camera_raise:
  "VideoCapture drv (device_index s) = Inl e \<Longrightarrow>
   open_camera drv (s, tr) =
     (Inr (), (s, tr @ [CallVideoCapture (device_index s),
                        Log ERROR (''Failed to open the camera: '' @ exn_msg e)]))"
  by (simp add: open_camera_def py_defs)

lemma open_camera_shape:
  "\<exists>s' evs. open_camera drv (s, tr) = (Inr (), (s', tr @ CallVideoCapture (device_index s) # evs)) \<and>
     device_index s' = device_index s \<and> frame_resolution s' = frame_resolution s \<and>
     frame_rate s' = frame_rate s \<and>
     count_ev is_ctor evs = 0 \<and> count_ev is_read evs = 0 \<and> count_ev is_write evs = 0 \<and>
     count_ev is_acquire evs \<le> 1"
  by (simp add: open_camera_def py_defs cam_defs count_ev_def split: sum.splits option.splits prod.splits stop.splits)

lemma capture_try_shape:
  "\<exists>evs. capture_try io d L C m (s, tr) = (Inr (), (s, tr @ evs)) \<and>
     count_ev is_ctor evs = 0 \<and> count_ev is_read evs \<le> 1"
  by (simp add: cap_defs py_defs cam_defs count_ev_def Let_def
      split: sum.splits option.splits prod.splits stop.splits)

lemma capture_try_no_handle:
  "camera s = None \<Longrightarrow>
   capture_try io d L C m (s, tr) =
     (Inr (), (s, tr @ [Log ERROR (''Error capturing and saving image: '' @
                                   exn_msg (AttributeError ''read''))]))"
  by (simp add: cap_defs py_defs cam_defs)

lemma capture_try_no_frame:
  "camera s = Some c \<Longrightarrow> frame_of c (io_read io) = Inr None \<Longrightarrow>
   capture_try io d L C m (s, tr) =
     (Inr (), (s, tr @ [CallRead, Log WARNING ''Failed to capture image from camera.'']))"
  by (simp add: cap_defs py_defs cam_defs)

lemma capture_try_frame:
  "camera s = Some c \<Longrightarrow> frame_of c (io_read io) = Inr (Some f) \<Longrightarrow>
   \<exists>rest. capture_try io (Some d) L C m (s, tr) =
     (Inr (), (s, tr @ CallRead #
        Imwrite (posix_join d (picture_stem L (io_now io) C @ ''.jpg'')) (Some 95) # rest))"
  by (simp add: cap_defs py_defs cam_defs Let_def
      split: sum.splits option.splits prod.splits stop.splits)

lemma capture_try_closed:
  "\<not> is_open s \<Longrightarrow>
   \<exists>evs. capture_try io d L C m (s, tr) = (Inr (), (s, tr @ evs)) \<and>
     count_ev is_write evs = 0 \<and> count_ev is_ctor evs = 0 \<and> count_ev is_read evs \<le> 1 \<and>
     (\<exists>ev\<in>set evs. is_trouble ev)"
  by (cases "camera s")
     (simp_all add: is_open_def capture_try_no_handle capture_try_no_frame frame_of_def count_ev_def)

lemma take_picture_open:
  "is_open s \<Longrightarrow> take_picture drv io d L C m (s, tr) = capture_try io d L C m (s, tr)"
  by (simp add: take_picture_def py_defs)

lemma take_picture_closed:
  "\<not> is_open s \<Longrightarrow>
   take_picture drv io d L C m (s, tr) =
     capture_try io d L C m
       (snd (open_camera drv (s, tr @ [Log WARNING ''Camera is not opened. Trying to open it...''])))"
  using open_camera_returns [of drv "(s, tr @ [Log WARNING ''Camera is not opened. Trying to open it...''])"]
  by (auto simp: take_picture_def py_defs split: prod.splits sum.splits)

lemma take_picture_returns: "fst (take_picture drv io d L C m st) = Inr ()"
proof (cases st)
  case (Pair s tr)
  show ?thesis
  proof (cases "is_open s")
    case True
    with Pair show ?thesis
      using capture_try_shape [of io d L C m s tr] by (auto simp: take_picture_open)
  next
    case False
    obtain s' tr' where o: "snd (open_camera drv (s, tr @ [Log WARNING ''Camera is not opened. Trying to open it...''])) = (s', tr')"
      by (cases "snd (open_camera drv (s, tr @ [Log WARNING ''Camera is not opened. Trying to open it...'']))")
    with Pair False show ?thesis
      using capture_try_shape [of io d L C m s' tr'] by (auto simp: take_picture_closed)
  qed
qed


lemma preview_info_None:
  "camera s = None \<Longrightarrow> preview_info (s, tr) = (Inl (Exc (AttributeError ''get'')), (s, tr))"
  by (simp add: preview_info_def py_defs cam_defs)

lemma preview_info_Some:
  "camera s = Some c \<Longrightarrow>
   preview_info (s, tr) =
     (Inr (actual c), (s, tr @ [Print (''Actual camera info: '' @ frame_info (actual c))]))"
  by (simp add: preview_info_def py_defs cam_defs actual_def)

lemma preview_body_no_frame:
  "camera s = Some c \<Longrightarrow> frame_of c (tk_read t) = Inr None \<Longrightarrow>
   preview_body T t0 act t (s, tr) =
     (Inl (SysExit 1),
      (s\<lparr>camera := Some (c\<lparr>opened := False\<rparr>)\<rparr>,
       tr @ [CallRead, CallRelease,
             Log ERROR (''Can not receive camera_id:'' @ str_int (device_index s) @ '' frame'')]))"
  by (simp add: preview_body_def py_defs cam_defs Let_def)

lemma preview_body_shown:
  "camera s = Some c \<Longrightarrow> shown c t \<Longrightarrow>
   preview_body T t0 act t (s, tr) =
     (Inr (breaks T t0 t), (s, tr @ shown_events (device_index s) act T t0 t))"
  by (auto simp: preview_body_def py_defs cam_defs shown_def breaks_def shown_events_def Let_def
      split: sum.splits option.splits)

lemma preview_loop_prefix:
  "camera s = Some c \<Longrightarrow> \<forall>t\<in>set pre. shown c t \<and> \<not> breaks T t0 t \<Longrightarrow>
   preview_loop T t0 act (pre @ rest) (s, tr) =
     preview_loop T t0 act rest (s, tr @ concat (map (shown_events (device_index s) act T t0) pre))"
proof (induction pre arbitrary: tr)
  case Nil
  show ?case by simp
next
  case (Cons t pre)
  from Cons.prems have sh: "shown c t" and nb: "\<not> breaks T t0 t"
    and rest: "\<forall>t\<in>set pre. shown c t \<and> \<not> breaks T t0 t" by simp_all
  from preview_body_shown [OF Cons.prems(1) sh, of T t0 act tr] nb
    Cons.IH [OF Cons.prems(1) rest, of "tr @ shown_events (device_index s) act T t0 t"]
  show ?case by simp
qed

lemma shown_events_reads:
  "count_ev is_read (concat (map (shown_events idx act T t0) ts)) = length ts"
  by (induction ts) (simp_all add: count_ev_def shown_events_def)

lemma shown_events_windows:
  "DestroyAllWindows \<notin> set (concat (map (shown_events idx act T t0) ts))"
  by (induction ts) (simp_all add: shown_events_def)

lemma preview_exit:
  assumes "camera s = Some c"
    and "\<forall>t\<in>set pre. shown c t \<and> \<not> breaks T t0 t"
    and "shown c t" and "breaks T t0 t"
  shows "show_live_camera T t0 (pre @ t # post) (s, tr) =
      Some (Inr (), (s, tr @ Print (''Actual camera info: '' @ frame_info (actual c)) #
        concat (map (shown_events (device_index s) (actual c) T t0) (pre @ [t])) @
        [DestroyAllWindows, WaitKey 1]))"
  using preview_loop_prefix [OF assms(1) assms(2), of "actual c" "t # post"
      "tr @ [Print (''Actual camera info: '' @ frame_info (actual c))]"]
    preview_body_shown [OF assms(1) assms(3), of T t0 "actual c"] assms(4)
  by (simp add: show_live_camera_def preview_info_Some [OF assms(1)] then_do_def seq_def emit_def)

lemma preview_fatal:
  assumes "camera s = Some c"
    and "\<forall>t\<in>set pre. shown c t \<and> \<not> breaks T t0 t"
    and "frame_of c (tk_read t) = Inr None"
  shows "show_live_camera T t0 (pre @ t # post) (s, tr) =
      Some (Inl (SysExit 1),
        (s\<lparr>camera := Some (c\<lparr>opened := False\<rparr>)\<rparr>,
         tr @ Print (''Actual camera info: '' @ frame_info (actual c)) #
         concat (map (shown_events (device_index s) (actual c) T t0) pre) @
         [CallRead, CallRelease,
          Log ERROR (''Can not receive camera_id:'' @ str_int (device_index s) @ '' frame'')]))"
  using preview_loop_prefix [OF assms(1) assms(2), of "actual c" "t # post"
      "tr @ [Print (''Actual camera info: '' @ frame_info (actual c))]"]
    preview_body_no_frame [OF assms(1) assms(3)]
  by (simp add: show_live_camera_def preview_info_Some [OF assms(1)])

text \<open>The preview does not read the requested resolution or rate.\<close>

lemma preview_body_request:
  "preview_body T t0 act t (s\<lparr>frame_resolution := r, frame_rate := f\<rparr>, tr) =
     (case preview_body T t0 act t (s, tr) of
        (out, (s', tr')) \<Rightarrow> (out, (s'\<lparr>frame_resolution := r, frame_rate := f\<rparr>, tr')))"
  by (simp add: preview_body_def py_defs cam_defs Let_def
      split: sum.splits option.splits prod.splits)

lemma preview_loop_request:
  "preview_loop T t0 act ticks (s\<lparr>frame_resolution := r, frame_rate := f\<rparr>, tr) =
     map_option (\<lambda>(out, (s', tr')). (out, (s'\<lparr>frame_resolution := r, frame_rate := f\<rparr>, tr')))
       (preview_loop T t0 act ticks (s, tr))"
proof (induction ticks arbitrary: s tr)
  case Nil
  show ?case by simp
next
  case (Cons t ticks)
  obtain out s' tr' where b: "preview_body T t0 act t (s, tr) = (out, (s', tr'))"
    by (cases "preview_body T t0 act t (s, tr)") auto
  show ?case
    using Cons.IH [of s' tr']
    by (simp add: preview_body_request b split: sum.splits)
qed

lemma preview_request:
  "seen (show_live_camera T t0 ticks (s\<lparr>frame_resolution := r, frame_rate := f\<rparr>, tr)) =
   seen (show_live_camera T t0 ticks (s, tr))"
proof (cases "camera s")
  case None
  then show ?thesis by (simp add: show_live_camera_def preview_info_None seen_def)
next
  case (Some c)
  let ?p = "tr @ [Print (''Actual camera info: '' @ frame_info (actual c))]"
  have i: "preview_info (s, tr) = (Inr (actual c), (s, ?p))"
    using Some by (rule preview_info_Some)
  have i': "preview_info (s\<lparr>frame_resolution := r, frame_rate := f\<rparr>, tr) =
      (Inr (actual c), (s\<lparr>frame_resolution := r, frame_rate := f\<rparr>, ?p))"
    using Some by (simp add: preview_info_Some)
  show ?thesis
    by (cases "preview_loop T t0 (actual c) ticks (s, ?p)")
       (auto simp: show_live_camera_def i i' preview_loop_request seen_def
          then_do_def seq_def emit_def split: sum.splits)
qed

subsection \<open>open_camera, call by call\<close>

lemma open_camera_acquire_raise:
  "VideoCapture drv (device_index s) = Inr c \<Longrightarrow> acquired drv (device_index s) c = Inl e \<Longrightarrow>
   open_camera drv (s, tr) =
     (Inr (), (s\<lparr>camera := Some c\<rparr>, tr @ acquire_calls (device_index s) c @
        [Log ERROR (''Failed to open the camera: '' @ exn_msg e)]))"
  by (cases "opened c")
     (simp_all add: open_camera_def py_defs cam_defs acquired_def acquire_calls_def)

lemma open_camera_width_raise:
  "VideoCapture drv (device_index s) = Inr c \<Longrightarrow> acquired drv (device_index s) c = Inr c1 \<Longrightarrow>
   cap_set drv c1 CAP_PROP_FRAME_WIDTH (of_int (fst (frame_resolution s))) = Inl e \<Longrightarrow>
   open_camera drv (s, tr) =
     (Inr (), (s\<lparr>camera := Some c1\<rparr>, tr @ acquire_calls (device_index s) c @
        [CallSleep 1, CallSet CAP_PROP_FRAME_WIDTH (of_int (fst (frame_resolution s))),
         Log ERROR (''Failed to open the camera: '' @ exn_msg e)]))"
  by (cases "opened c")
     (simp_all add: open_camera_def py_defs cam_defs acquired_def acquire_calls_def)

lemma open_camera_height_raise:
  "VideoCapture drv (device_index s) = Inr c \<Longrightarrow> acquired drv (device_index s) c = Inr c1 \<Longrightarrow>
   cap_set drv c1 CAP_PROP_FRAME_WIDTH (of_int (fst (frame_resolution s))) = Inr c2 \<Longrightarrow>
   cap_set drv c2 CAP_PROP_FRAME_HEIGHT (of_int (snd (frame_resolution s))) = Inl e \<Longrightarrow>
   open_camera drv (s, tr) =
     (Inr (), (s\<lparr>camera := Some c2\<rparr>, tr @ acquire_calls (device_index s) c @
        [CallSleep 1, CallSet CAP_PROP_FRAME_WIDTH (of_int (fst (frame_resolution s))),
         CallSet CAP_PROP_FRAME_HEIGHT (of_int (snd (frame_resolution s))),
         Log ERROR (''Failed to open the camera: '' @ exn_msg e)]))"
  by (cases "opened c")
     (simp_all add: open_camera_def py_defs cam_defs acquired_def acquire_calls_def)

lemma open_camera_rate_raise:
  "VideoCapture drv (device_index s) = Inr c \<Longrightarrow> acquired drv (device_index s) c = Inr c1 \<Longrightarrow>
   cap_set drv c1 CAP_PROP_FRAME_WIDTH (of_int (fst (frame_resolution s))) = Inr c2 \<Longrightarrow>
   cap_set drv c2 CAP_PROP_FRAME_HEIGHT (of_int (snd (frame_resolution s))) = Inr c3 \<Longrightarrow>
   cap_set drv c3 CAP_PROP_FPS (of_int (frame_rate s)) = Inl e \<Longrightarrow>
   open_camera drv (s, tr) =
     (Inr (), (s\<lparr>camera := Some c3\<rparr>, tr @ acquire_calls (device_index s) c @
        [CallSleep 1, CallSet CAP_PROP_FRAME_WIDTH (of_int (fst (frame_resolution s))),
         CallSet CAP_PROP_FRAME_HEIGHT (of_int (snd (frame_resolution s))),
         CallSet CAP_PROP_FPS (of_int (frame_rate s)),
         Log ERROR (''Failed to open the camera: '' @ exn_msg e)]))"
  by (cases "opened c")
     (simp_all add: open_camera_def py_defs cam_defs acquired_def acquire_calls_def)

lemma open_camera_focus_raise:
  "VideoCapture drv (device_index s) = Inr c \<Longrightarrow> acquired drv (device_index s) c = Inr c1 \<Longrightarrow>
   cap_set drv c1 CAP_PROP_FRAME_WIDTH (of_int (fst (frame_resolution s))) = Inr c2 \<Longrightarrow>
   cap_set drv c2 CAP_PROP_FRAME_HEIGHT (of_int (snd (frame_resolution s))) = Inr c3 \<Longrightarrow>
   cap_set drv c3 CAP_PROP_FPS (of_int (frame_rate s)) = Inr c4 \<Longrightarrow>
   cap_set drv c4 CAP_PROP_AUTOFOCUS 1 = Inl e \<Longrightarrow>
   open_camera drv (s, tr) =
     (Inr (), (s\<lparr>camera := Some c4\<rparr>, tr @ acquire_calls (device_index s) c @
        [CallSleep 1, CallSet CAP_PROP_FRAME_WIDTH (of_int (fst (frame_resolution s))),
         CallSet CAP_PROP_FRAME_HEIGHT (of_int (snd (frame_resolution s))),
         CallSet CAP_PROP_FPS (of_int (frame_rate s)), CallSet CAP_PROP_AUTOFOCUS 1,
         Log ERROR (''Failed to open the camera: '' @ exn_msg e)]))"
  by (cases "opened c")
     (simp_all add: open_camera_def py_defs cam_defs acquired_def acquire_calls_def)

lemma open_camera_configured:
  "VideoCapture drv (device_index s) = Inr c \<Longrightarrow> acquired drv (device_index s) c = Inr c1 \<Longrightarrow>
   cap_set drv c1 CAP_PROP_FRAME_WIDTH (of_int (fst (frame_resolution s))) = Inr c2 \<Longrightarrow>
   cap_set drv c2 CAP_PROP_FRAME_HEIGHT (of_int (snd (frame_resolution s))) = Inr c3 \<Longrightarrow>
   cap_set drv c3 CAP_PROP_FPS (of_int (frame_rate s)) = Inr c4 \<Longrightarrow>
   cap_set drv c4 CAP_PROP_AUTOFOCUS 1 = Inr c5 \<Longrightarrow>
   open_camera drv (s, tr) =
     (Inr (), (s\<lparr>camera := Some c5\<rparr>, tr @ acquire_calls (device_index s) c @
        [CallSleep 1, CallSet CAP_PROP_FRAME_WIDTH (of_int (fst (frame_resolution s))),
         CallSet CAP_PROP_FRAME_HEIGHT (of_int (snd (frame_resolution s))),
         CallSet CAP_PROP_FPS (of_int (frame_rate s)), CallSet CAP_PROP_AUTOFOCUS 1,
         Log INFO (config_text s)]))"
  by (cases "opened c")
     (simp_all add: open_camera_def py_defs cam_defs acquired_def acquire_calls_def)

lemma release_camera_returns: "fst (release_camera st) = Inr ()"
  by (cases st) (simp add: release_camera_def py_defs cam_defs split: option.splits)

lemma release_camera_twice:
  "fst (snd (release_camera (snd (release_camera st)))) = fst (snd (release_camera st))"
proof (cases st)
  case (Pair s tr)
  then show ?thesis
    by (cases "camera s") (simp_all add: release_camera_None release_camera_Some)
qed

lemma take_picture_closed_shape:
  assumes "\<not> is_open s"
  shows "\<exists>s' oevs cevs.
     open_camera drv (s, tr @ [Log WARNING ''Camera is not opened. Trying to open it...'']) =
       (Inr (), (s', tr @ Log WARNING ''Camera is not opened. Trying to open it...'' #
                      CallVideoCapture (device_index s) # oevs)) \<and>
     take_picture drv io d L C m (s, tr) =
       (Inr (), (s', tr @ Log WARNING ''Camera is not opened. Trying to open it...'' #
                      CallVideoCapture (device_index s) # oevs @ cevs)) \<and>
     count_ev is_ctor oevs = 0 \<and> count_ev is_read oevs = 0 \<and> count_ev is_write oevs = 0 \<and>
     count_ev is_ctor cevs = 0 \<and> count_ev is_read cevs \<le> 1 \<and>
     (\<not> is_open s' \<longrightarrow> count_ev is_write cevs = 0 \<and> (\<exists>ev\<in>set cevs. is_trouble ev))"
proof -
  let ?w = "Log WARNING ''Camera is not opened. Trying to open it...''"
  from open_camera_shape [of drv s "tr @ [?w]"]
  obtain s' oevs where o: "open_camera drv (s, tr @ [?w]) =
      (Inr (), (s', (tr @ [?w]) @ CallVideoCapture (device_index s) # oevs))"
    and c: "count_ev is_ctor oevs = 0" "count_ev is_read oevs = 0" "count_ev is_write oevs = 0"
    by blast
  let ?tr' = "(tr @ [?w]) @ CallVideoCapture (device_index s) # oevs"
  from capture_try_shape [of io d L C m s' ?tr']
  obtain cevs where t: "capture_try io d L C m (s', ?tr') = (Inr (), (s', ?tr' @ cevs))"
    and k: "count_ev is_ctor cevs = 0" "count_ev is_read cevs \<le> 1" by blast
  have closed: "\<not> is_open s' \<longrightarrow> count_ev is_write cevs = 0 \<and> (\<exists>ev\<in>set cevs. is_trouble ev)"
  proof
    assume "\<not> is_open s'"
    from capture_try_closed [OF this, of io d L C m ?tr'] t
    show "count_ev is_write cevs = 0 \<and> (\<exists>ev\<in>set cevs. is_trouble ev)" by auto
  qed
  from assms o t have "take_picture drv io d L C m (s, tr) = (Inr (), (s', ?tr' @ cevs))"
    by (simp add: take_picture_closed)
  with o c k closed show ?thesis by auto
qed

lemma capture_try_reads:
  "camera s = Some c \<Longrightarrow>
   \<exists>evs. capture_try io d L C m (s, tr) = (Inr (), (s, tr @ CallRead # evs))"
  by (simp add: cap_defs py_defs cam_defs Let_def
      split: sum.splits option.splits prod.splits stop.splits)

subsection \<open>Evaluation of the examples\<close>

lemmas eval_defs = example_defs run_defs open_camera_def release_camera_def take_picture_def
  capture_try_def imwrite_def rewrite_answer_def add_pic_mark_def os_path_join_def posix_join_def
  py_defs cam_defs is_open_def frame_of_def picture_stem_def strftime_def pad2_def
  str_int_def str_nat.simps digit_char_def fmt_pair_def count_ev_def

section \<open>The claims\<close>

text \<open>
  C10: \<^verbatim>\<open>show_live_camera\<close> on a session whose handle is \<^verbatim>\<open>None\<close> raises
  \<^verbatim>\<open>AttributeError\<close> at its first statement, before any call reaches the world and
  whatever the ticks are; \<^verbatim>\<open>take_picture\<close> in the same state checks the handle and makes
  the implicit open.
\<close>

theorem preview_unopened_raises:
  assumes "camera s = None"
  shows "show_live_camera T t0 ticks (s, tr) = Some (Inl (Exc (AttributeError ''get'')), (s, tr)) \<and>
    (\<exists>s' evs. take_picture drv io d L C m (s, tr) =
       (Inr (), (s', tr @ Log WARNING ''Camera is not opened. Trying to open it...'' #
                      CallVideoCapture (device_index s) # evs)))"
proof
  from assms show "show_live_camera T t0 ticks (s, tr) =
      Some (Inl (Exc (AttributeError ''get'')), (s, tr))"
    by (simp add: show_live_camera_def preview_info_None)
  from assms have "\<not> is_open s" by (simp add: is_open_def)
  from take_picture_closed_shape [OF this, of drv tr io d L C m]
  show "\<exists>s' evs. take_picture drv io d L C m (s, tr) =
       (Inr (), (s', tr @ Log WARNING ''Camera is not opened. Trying to open it...'' #
                      CallVideoCapture (device_index s) # evs))"
    by blast
qed

theorem preview_unopened_raises_witness:
  "camera cam0 = None \<and>
   show_live_camera 60 0 [frame_tick 0 113] (cam0, []) =
     Some (Inl (Exc (AttributeError ''get'')), (cam0, []))"
proof -
  have h: "camera cam0 = None" by (simp add: cam0_def init_session_def)
  from preview_unopened_raises [OF h, of 60 0 "[frame_tick 0 113]" "[]"] h
  show ?thesis by simp
qed

text \<open>
  C2: \<^verbatim>\<open>release_camera\<close> with no handle changes nothing and calls nothing; after any
  \<^verbatim>\<open>open_camera\<close>, a release, a second release and the release of \<^verbatim>\<open>__del__\<close> all
  return normally, and the second release leaves the session as the first left it.
\<close>

theorem release_idempotent:
  "(camera s = None \<longrightarrow> release_camera (s, tr) = (Inr (), (s, tr))) \<and>
   outcome (run (open_camera drv) s0) = Inr () \<and>
   outcome (release_camera (snd (run (open_camera drv) s0))) = Inr () \<and>
   outcome (release_camera (snd (release_camera (snd (run (open_camera drv) s0))))) = Inr () \<and>
   outcome (del_session (snd (release_camera (snd (release_camera (snd (run (open_camera drv) s0))))))) = Inr () \<and>
   final (release_camera (snd (release_camera st))) = final (release_camera st)"
  by (simp add: release_camera_None outcome_def final_def run_def del_session_def
      open_camera_returns release_camera_returns release_camera_twice)

theorem release_idempotent_witness:
  "camera cam0 = None \<and> release_camera (cam0, []) = (Inr (), (cam0, [])) \<and>
   outcome (del_session (snd (release_camera (snd (release_camera (snd (run (open_camera fixed_driver) cam0))))))) = Inr ()"
proof -
  have h: "camera cam0 = None" by (simp add: cam0_def init_session_def)
  from release_idempotent [of cam0 "[]" fixed_driver cam0] h
  show ?thesis by simp
qed

text \<open>
  C4: on an open session whose frame read fails, \<^verbatim>\<open>take_picture\<close> returns normally,
  logs one warning after the read, writes no file and leaves the session as it was; the
  next call reads again, and writes the picture when that read succeeds.
\<close>

theorem capture_read_failure_recoverable:
  assumes "camera s = Some c" and "opened c" and "io_read io = Inr None"
  shows "take_picture drv io d L C m (s, tr) =
       (Inr (), (s, tr @ [CallRead, Log WARNING ''Failed to capture image from camera.''])) \<and>
    (\<exists>evs. take_picture drv io2 d2 L2 C2 m2 (snd (take_picture drv io d L C m (s, tr))) =
       (Inr (), (s, tr @ [CallRead, Log WARNING ''Failed to capture image from camera.''] @
                    CallRead # evs))) \<and>
    (io_read io2 = Inr (Some f) \<longrightarrow>
      (\<exists>rest. take_picture drv io2 (Some p) L2 C2 m2 (snd (take_picture drv io d L C m (s, tr))) =
       (Inr (), (s, tr @ [CallRead, Log WARNING ''Failed to capture image from camera.''] @
                    CallRead # Imwrite (posix_join p (picture_stem L2 (io_now io2) C2 @ ''.jpg''))
                      (Some 95) # rest))))"
proof -
  let ?tr = "tr @ [CallRead, Log WARNING ''Failed to capture image from camera.'']"
  from assms have op: "is_open s" by (simp add: is_open_def)
  from assms have nf: "frame_of c (io_read io) = Inr None" by (simp add: frame_of_def)
  have one: "take_picture drv io d L C m (s, tr) = (Inr (), (s, ?tr))"
    using op capture_try_no_frame [OF assms(1) nf] by (simp add: take_picture_open)
  from capture_try_reads [OF assms(1), of io2 d2 L2 C2 m2 ?tr]
  have two: "\<exists>evs. take_picture drv io2 d2 L2 C2 m2 (s, ?tr) = (Inr (), (s, ?tr @ CallRead # evs))"
    using op by (simp add: take_picture_open)
  have three: "io_read io2 = Inr (Some f) \<longrightarrow>
      (\<exists>rest. take_picture drv io2 (Some p) L2 C2 m2 (s, ?tr) =
        (Inr (), (s, ?tr @ CallRead #
           Imwrite (posix_join p (picture_stem L2 (io_now io2) C2 @ ''.jpg'')) (Some 95) # rest)))"
  proof
    assume "io_read io2 = Inr (Some f)"
    with assms(2) have "frame_of c (io_read io2) = Inr (Some f)" by (simp add: frame_of_def)
    from capture_try_frame [OF assms(1) this, of p L2 C2 m2 ?tr]
    show "\<exists>rest. take_picture drv io2 (Some p) L2 C2 m2 (s, ?tr) =
        (Inr (), (s, ?tr @ CallRead #
           Imwrite (posix_join p (picture_stem L2 (io_now io2) C2 @ ''.jpg'')) (Some 95) # rest))"
      using op by (simp add: take_picture_open)
  qed
  from one two three show ?thesis by simp
qed

theorem capture_read_failure_recoverable_witness:
  "camera opened_cam = Some vga \<and> opened vga \<and> io_read bad_read_io = Inr None \<and>
   take_picture fixed_driver bad_read_io (Some ''out'') (PyStr ''smoke'') (PyStr ''1'') True
       (opened_cam, []) =
     (Inr (), (opened_cam, [CallRead, Log WARNING ''Failed to capture image from camera.'']))"
proof -
  have h1: "camera opened_cam = Some vga" by (simp add: opened_cam_def)
  have h2: "opened vga" by (simp add: vga_def)
  have h3: "io_read bad_read_io = Inr None" by (simp add: bad_read_io_def)
  from capture_read_failure_recoverable [OF h1 h2 h3, of fixed_driver "Some ''out''"
      "PyStr ''smoke''" "PyStr ''1''" True "[]"] h1 h2 h3
  show ?thesis by simp
qed

text \<open>
  C5: when the read of a preview turn fails, after any number of turns that showed a frame
  and did not break, the preview releases the handle, logs the error and exits with
  status 1; that read is the last one, whatever ticks would follow, and the windows are
  not closed on this path.
\<close>

theorem preview_read_failure_fatal:
  assumes "camera s = Some c"
    and "\<forall>t\<in>set pre. shown c t \<and> \<not> breaks T t0 t"
    and "frame_of c (tk_read t) = Inr None"
  shows "\<exists>evs. show_live_camera T t0 (pre @ t # post) (s, tr) =
      Some (Inl (SysExit 1),
        (s\<lparr>camera := Some (c\<lparr>opened := False\<rparr>)\<rparr>,
         tr @ evs @ [CallRead, CallRelease,
            Log ERROR (''Can not receive camera_id:'' @ str_int (device_index s) @ '' frame'')])) \<and>
      count_ev is_read evs = length pre \<and> DestroyAllWindows \<notin> set evs"
proof -
  let ?evs = "Print (''Actual camera info: '' @ frame_info (actual c)) #
      concat (map (shown_events (device_index s) (actual c) T t0) pre)"
  let ?tail = "[CallRead, CallRelease,
            Log ERROR (''Can not receive camera_id:'' @ str_int (device_index s) @ '' frame'')]"
  have "show_live_camera T t0 (pre @ t # post) (s, tr) =
      Some (Inl (SysExit 1), (s\<lparr>camera := Some (c\<lparr>opened := False\<rparr>)\<rparr>, tr @ ?evs @ ?tail))"
    using preview_fatal [OF assms, of post tr] by simp
  moreover have "count_ev is_read ?evs = length pre"
    using shown_events_reads [of "device_index s" "actual c" T t0 pre] by (simp add: count_ev_def)
  moreover have "DestroyAllWindows \<notin> set ?evs"
    using shown_events_windows [of "device_index s" "actual c" T t0 pre] by simp
  ultimately show ?thesis by blast
qed

theorem preview_read_failure_fatal_witness:
  "camera opened_cam = Some vga \<and>
   shown vga (frame_tick 0 (- 1)) \<and> \<not> breaks 60 0 (frame_tick 0 (- 1)) \<and>
   shown vga (frame_tick 1 (- 1)) \<and> \<not> breaks 60 0 (frame_tick 1 (- 1)) \<and>
   frame_of vga (tk_read (lost_tick 2)) = Inr None \<and>
   (\<exists>evs. show_live_camera 60 0
        ([frame_tick 0 (- 1), frame_tick 1 (- 1)] @ lost_tick 2 # [frame_tick 3 (- 1)])
        (opened_cam, []) =
      Some (Inl (SysExit 1),
        (opened_cam\<lparr>camera := Some (vga\<lparr>opened := False\<rparr>)\<rparr>,
         [] @ evs @ [CallRead, CallRelease,
            Log ERROR (''Can not receive camera_id:'' @ str_int (device_index opened_cam) @ '' frame'')])) \<and>
      count_ev is_read evs = length [frame_tick 0 (- 1), frame_tick 1 (- 1)] \<and>
      DestroyAllWindows \<notin> set evs)"
proof -
  have h1: "camera opened_cam = Some vga" by (simp add: opened_cam_def)
  have a: "shown vga (frame_tick 0 (- 1)) \<and> \<not> breaks 60 0 (frame_tick 0 (- 1))"
    by (simp add: shown_def breaks_def frame_of_def frame_tick_def vga_def fsub_def fl_values)
  have b: "shown vga (frame_tick 1 (- 1)) \<and> \<not> breaks 60 0 (frame_tick 1 (- 1))"
    by (simp add: shown_def breaks_def frame_of_def frame_tick_def vga_def fsub_def fl_values)
  from a b have h2: "\<forall>t\<in>set [frame_tick 0 (- 1), frame_tick 1 (- 1)]. shown vga t \<and> \<not> breaks 60 0 t"
    by simp
  have h3: "frame_of vga (tk_read (lost_tick 2)) = Inr None"
    by (simp add: frame_of_def lost_tick_def)
  from preview_read_failure_fatal [OF h1 h2 h3, of "[frame_tick 3 (- 1)]" "[]"] h1 a b h3
  show ?thesis by blast
qed

text \<open>
  C6: the preview returns at the first turn at which the key is \<^verbatim>\<open>q\<close> or the elapsed
  time, the float difference of the clock read at the top of the turn and the start, is
  more than the timeout, provided the frames up to there arrive. It has read one frame a
  turn up to that turn and no more, and it closes the windows on the way out, whichever of
  the two conditions ended the loop.
\<close>

theorem preview_exits_on_key_or_timeout:
  assumes "camera s = Some c"
    and "\<forall>t\<in>set pre. shown c t \<and> tk_key t \<noteq> 113 \<and> fsub (tk_now t) t0 \<le> T"
    and "shown c t"
    and "tk_key t = 113 \<or> fsub (tk_now t) t0 > T"
  shows "\<exists>evs. show_live_camera T t0 (pre @ t # post) (s, tr) =
      Some (Inr (), (s, tr @ evs @ [DestroyAllWindows, WaitKey 1])) \<and>
      count_ev is_read evs = length pre + 1 \<and> DestroyAllWindows \<notin> set evs"
proof -
  let ?evs = "Print (''Actual camera info: '' @ frame_info (actual c)) #
      concat (map (shown_events (device_index s) (actual c) T t0) (pre @ [t]))"
  from assms(2) have pre: "\<forall>t\<in>set pre. shown c t \<and> \<not> breaks T t0 t"
    by (auto simp: breaks_def)
  from assms(4) have brk: "breaks T t0 t" by (simp add: breaks_def)
  have "show_live_camera T t0 (pre @ t # post) (s, tr) =
      Some (Inr (), (s, tr @ ?evs @ [DestroyAllWindows, WaitKey 1]))"
    using preview_exit [OF assms(1) pre assms(3) brk, of post tr] by simp
  moreover have "count_ev is_read ?evs = length pre + 1"
    using shown_events_reads [of "device_index s" "actual c" T t0 "pre @ [t]"]
    by (simp add: count_ev_def)
  moreover have "DestroyAllWindows \<notin> set ?evs"
    using shown_events_windows [of "device_index s" "actual c" T t0 "pre @ [t]"] by simp
  ultimately show ?thesis by blast
qed

theorem preview_exits_on_key_or_timeout_witness:
  "camera opened_cam = Some vga \<and>
   shown vga (frame_tick 0 (- 1)) \<and> tk_key (frame_tick 0 (- 1)) \<noteq> 113 \<and>
   fsub (tk_now (frame_tick 0 (- 1))) 0 \<le> 60 \<and>
   shown vga (frame_tick 60 (- 1)) \<and> tk_key (frame_tick 60 (- 1)) \<noteq> 113 \<and>
   fsub (tk_now (frame_tick 60 (- 1))) 0 \<le> 60 \<and>
   shown vga (frame_tick 61 (- 1)) \<and> fsub (tk_now (frame_tick 61 (- 1))) 0 > 60 \<and>
   (\<exists>evs. show_live_camera 60 0
       ([frame_tick 0 (- 1), frame_tick 60 (- 1)] @ frame_tick 61 (- 1) # [frame_tick 62 (- 1)])
       (opened_cam, []) =
      Some (Inr (), (opened_cam, [] @ evs @ [DestroyAllWindows, WaitKey 1])) \<and>
      count_ev is_read evs = length [frame_tick 0 (- 1), frame_tick 60 (- 1)] + 1 \<and>
      DestroyAllWindows \<notin> set evs) \<and>
   shown vga (frame_tick d601 (- 1)) \<and> tk_key (frame_tick d601 (- 1)) \<noteq> 113 \<and>
   fsub (tk_now (frame_tick d601 (- 1))) d01 = 60 \<and>
   shown vga (frame_tick d601 113) \<and> tk_key (frame_tick d601 113) = 113 \<and>
   (\<exists>evs. show_live_camera 60 d01 ([frame_tick d601 (- 1)] @ frame_tick d601 113 # [])
       (opened_cam, []) =
      Some (Inr (), (opened_cam, [] @ evs @ [DestroyAllWindows, WaitKey 1])) \<and>
      count_ev is_read evs = length [frame_tick d601 (- 1)] + 1 \<and>
      DestroyAllWindows \<notin> set evs)"
proof -
  have h1: "camera opened_cam = Some vga" by (simp add: opened_cam_def)
  have a: "shown vga (frame_tick 0 (- 1)) \<and> tk_key (frame_tick 0 (- 1)) \<noteq> 113 \<and>
      fsub (tk_now (frame_tick 0 (- 1))) 0 \<le> 60"
    by (simp add: shown_def frame_of_def frame_tick_def vga_def fsub_def fl_values)
  have b: "shown vga (frame_tick 60 (- 1)) \<and> tk_key (frame_tick 60 (- 1)) \<noteq> 113 \<and>
      fsub (tk_now (frame_tick 60 (- 1))) 0 \<le> 60"
    by (simp add: shown_def frame_of_def frame_tick_def vga_def fsub_def fl_values)
  from a b have h2: "\<forall>t\<in>set [frame_tick 0 (- 1), frame_tick 60 (- 1)].
      shown vga t \<and> tk_key t \<noteq> 113 \<and> fsub (tk_now t) 0 \<le> 60"
    by simp
  have h3: "shown vga (frame_tick 61 (- 1))"
    by (simp add: shown_def frame_of_def frame_tick_def vga_def)
  have t: "fsub (tk_now (frame_tick 61 (- 1))) 0 > 60"
    by (simp add: frame_tick_def fsub_def fl_values)
  then have h4: "tk_key (frame_tick 61 (- 1)) = 113 \<or> fsub (tk_now (frame_tick 61 (- 1))) 0 > 60" ..
  have g: "shown vga (frame_tick d601 (- 1)) \<and> tk_key (frame_tick d601 (- 1)) \<noteq> 113"
    by (simp add: shown_def frame_of_def frame_tick_def vga_def)
  have e: "fsub (tk_now (frame_tick d601 (- 1))) d01 = 60"
    by (simp add: frame_tick_def fsub_d601_d01)
  from g e have g2: "\<forall>t\<in>set [frame_tick d601 (- 1)].
      shown vga t \<and> tk_key t \<noteq> 113 \<and> fsub (tk_now t) d01 \<le> 60"
    by simp
  have k3: "shown vga (frame_tick d601 113)"
    by (simp add: shown_def frame_of_def frame_tick_def vga_def)
  have k: "tk_key (frame_tick d601 113) = 113" by (simp add: frame_tick_def)
  then have k4: "tk_key (frame_tick d601 113) = 113 \<or> fsub (tk_now (frame_tick d601 113)) d01 > 60" ..
  from preview_exits_on_key_or_timeout [OF h1 h2 h3 h4, of "[frame_tick 62 (- 1)]" "[]"]
    preview_exits_on_key_or_timeout [OF h1 g2 k3 k4, of "[]" "[]"]
    h1 a b h3 t g e k3 k
  show ?thesis by blast
qed

text \<open>
  C1 as the specification states it fails: after \<^verbatim>\<open>open_camera\<close> and \<^verbatim>\<open>release_camera\<close> on a
  device that opens, the handle is still there while the session is not open, and
  \<^verbatim>\<open>take_picture\<close> on that session returns normally.
\<close>

theorem release_clears_handle_counterexample:
  "camera (final (release_camera (snd (run (open_camera fixed_driver) cam0)))) \<noteq> None \<and>
   \<not> is_open (final (release_camera (snd (run (open_camera fixed_driver) cam0)))) \<and>
   outcome (take_picture fixed_driver good_io (Some ''out'') (PyStr ''smoke'') (PyStr ''1'') False
     (snd (release_camera (snd (run (open_camera fixed_driver) cam0))))) = Inr ()"
  by (simp add: eval_defs)

text \<open>
  C1, as the code has it: an open session has a handle, and \<^verbatim>\<open>release_camera\<close> keeps the
  handle object while it gives the device back, so that a released session has a handle
  that is not opened. In that state nothing raises a session error: a further release
  returns, \<^verbatim>\<open>take_picture\<close> makes its implicit open and returns, and the preview exits
  with status 1 at its first read.
\<close>

theorem release_keeps_handle:
  assumes "camera s = Some c"
  shows "release_camera (s, tr) =
       (Inr (), (s\<lparr>camera := Some (c\<lparr>opened := False\<rparr>)\<rparr>,
                 tr @ [CallRelease, Log INFO ''Camera resources have been released.''])) \<and>
     camera (final (release_camera (s, tr))) \<noteq> None \<and>
     \<not> is_open (final (release_camera (s, tr))) \<and>
     (is_open s1 \<longrightarrow> camera s1 \<noteq> None) \<and>
     outcome (release_camera (snd (release_camera (s, tr)))) = Inr () \<and>
     (\<exists>s' evs. take_picture drv io d L C m (snd (release_camera (s, tr))) =
        (Inr (), (s', tr @ [CallRelease, Log INFO ''Camera resources have been released.''] @
           Log WARNING ''Camera is not opened. Trying to open it...'' #
           CallVideoCapture (device_index s) # evs))) \<and>
     (\<exists>s' tr'. show_live_camera T t0 (t # ticks) (snd (release_camera (s, tr))) =
        Some (Inl (SysExit 1), (s', tr')))"
proof -
  let ?s = "s\<lparr>camera := Some (c\<lparr>opened := False\<rparr>)\<rparr>"
  let ?tr = "tr @ [CallRelease, Log INFO ''Camera resources have been released.'']"
  have r: "release_camera (s, tr) = (Inr (), (?s, ?tr))"
    using assms by (rule release_camera_Some)
  have cam: "camera ?s = Some (c\<lparr>opened := False\<rparr>)" by simp
  have closed: "\<not> is_open ?s" by (simp add: is_open_def)
  have inv: "is_open s1 \<longrightarrow> camera s1 \<noteq> None"
    by (auto simp: is_open_def split: option.splits)
  have again: "outcome (release_camera (?s, ?tr)) = Inr ()"
    by (simp add: outcome_def release_camera_returns)
  from take_picture_closed_shape [OF closed, of drv ?tr io d L C m]
  have tp: "\<exists>s' evs. take_picture drv io d L C m (?s, ?tr) =
        (Inr (), (s', ?tr @ Log WARNING ''Camera is not opened. Trying to open it...'' #
           CallVideoCapture (device_index s) # evs))"
    by auto
  have nf: "frame_of (c\<lparr>opened := False\<rparr>) (tk_read t) = Inr None" by (simp add: frame_of_def)
  have pv: "\<exists>s' tr'. show_live_camera T t0 (t # ticks) (?s, ?tr) = Some (Inl (SysExit 1), (s', tr'))"
    using preview_body_no_frame [OF cam nf]
    by (simp add: show_live_camera_def preview_info_Some [OF cam])
  from r closed inv again tp pv show ?thesis by (simp add: final_def)
qed

theorem release_keeps_handle_witness:
  "camera opened_cam = Some vga \<and>
   release_camera (opened_cam, []) =
     (Inr (), (opened_cam\<lparr>camera := Some (vga\<lparr>opened := False\<rparr>)\<rparr>,
               [CallRelease, Log INFO ''Camera resources have been released.'']))"
proof -
  have h: "camera opened_cam = Some vga" by (simp add: opened_cam_def)
  from release_keeps_handle [OF h, of "[]"] h show ?thesis by simp
qed

text \<open>
  C7 as the specification states it fails: on a busy device \<^verbatim>\<open>open_camera\<close> returns
  normally with the session not open, after two acquisition calls and without a warning
  or an error in the log.
\<close>

theorem open_failure_reported_counterexample:
  "outcome (run (open_camera busy_driver) cam0) = Inr () \<and>
   \<not> is_open (final (run (open_camera busy_driver) cam0)) \<and>
   count_ev is_acquire (trace (run (open_camera busy_driver) cam0)) = 2 \<and>
   count_ev is_trouble (trace (run (open_camera busy_driver) cam0)) = 0"
  by (simp add: eval_defs)

text \<open>
  C7, as the code has it: \<^verbatim>\<open>open_camera\<close> returns normally in every case and makes at
  most two acquisition calls. When the constructor raises, the error is logged and the
  session is left as it was. When the constructor returns a handle that is not opened,
  \<^verbatim>\<open>open\<close> is called once more on it, and when it returns an opened handle there is no
  second call. If that \<^verbatim>\<open>open\<close> raises, the error is logged and nothing more is called.
  Otherwise the method sleeps one second and sets width, height, rate and autofocus in this
  order with the requested values, whether or not the device was acquired; the first of
  these calls that raises ends the method with the error logged, and when none raises the
  configuration is logged at level INFO as the last event.
\<close>

theorem open_camera_never_raises:
  "outcome (run (open_camera drv) s) = Inr () \<and>
   count_ev is_acquire (trace (run (open_camera drv) s)) \<le> 2 \<and>
   (VideoCapture drv (device_index s) = Inl e \<longrightarrow>
      run (open_camera drv) s =
        (Inr (), (s, [CallVideoCapture (device_index s),
                      Log ERROR (''Failed to open the camera: '' @ exn_msg e)]))) \<and>
   (VideoCapture drv (device_index s) = Inr c \<longrightarrow>
      acquire_calls (device_index s) c =
        CallVideoCapture (device_index s) # (if opened c then [] else [CallOpen (device_index s)]) \<and>
      (acquired drv (device_index s) c = Inl e \<longrightarrow>
         \<not> opened c \<and>
         run (open_camera drv) s =
           (Inr (), (s\<lparr>camera := Some c\<rparr>, acquire_calls (device_index s) c @
              [Log ERROR (''Failed to open the camera: '' @ exn_msg e)]))) \<and>
      (acquired drv (device_index s) c = Inr c1 \<longrightarrow>
         (cap_set drv c1 CAP_PROP_FRAME_WIDTH (of_int (fst (frame_resolution s))) = Inl e \<longrightarrow>
            run (open_camera drv) s =
              (Inr (), (s\<lparr>camera := Some c1\<rparr>, acquire_calls (device_index s) c @
                 [CallSleep 1, CallSet CAP_PROP_FRAME_WIDTH (of_int (fst (frame_resolution s))),
                  Log ERROR (''Failed to open the camera: '' @ exn_msg e)]))) \<and>
         (cap_set drv c1 CAP_PROP_FRAME_WIDTH (of_int (fst (frame_resolution s))) = Inr c2 \<longrightarrow>
            (cap_set drv c2 CAP_PROP_FRAME_HEIGHT (of_int (snd (frame_resolution s))) = Inl e \<longrightarrow>
               run (open_camera drv) s =
                 (Inr (), (s\<lparr>camera := Some c2\<rparr>, acquire_calls (device_index s) c @
                    [CallSleep 1, CallSet CAP_PROP_FRAME_WIDTH (of_int (fst (frame_resolution s))),
                     CallSet CAP_PROP_FRAME_HEIGHT (of_int (snd (frame_resolution s))),
                     Log ERROR (''Failed to open the camera: '' @ exn_msg e)]))) \<and>
            (cap_set drv c2 CAP_PROP_FRAME_HEIGHT (of_int (snd (frame_resolution s))) = Inr c3 \<longrightarrow>
               (cap_set drv c3 CAP_PROP_FPS (of_int (frame_rate s)) = Inl e \<longrightarrow>
                  run (open_camera drv) s =
                    (Inr (), (s\<lparr>camera := Some c3\<rparr>, acquire_calls (device_index s) c @
                       [CallSleep 1, CallSet CAP_PROP_FRAME_WIDTH (of_int (fst (frame_resolution s))),
                        CallSet CAP_PROP_FRAME_HEIGHT (of_int (snd (frame_resolution s))),
                        CallSet CAP_PROP_FPS (of_int (frame_rate s)),
                        Log ERROR (''Failed to open the camera: '' @ exn_msg e)]))) \<and>
               (cap_set drv c3 CAP_PROP_FPS (of_int (frame_rate s)) = Inr c4 \<longrightarrow>
                  (cap_set drv c4 CAP_PROP_AUTOFOCUS 1 = Inl e \<longrightarrow>
                     run (open_camera drv) s =
                       (Inr (), (s\<lparr>camera := Some c4\<rparr>, acquire_calls (device_index s) c @
                          [CallSleep 1,
                           CallSet CAP_PROP_FRAME_WIDTH (of_int (fst (frame_resolution s))),
                           CallSet CAP_PROP_FRAME_HEIGHT (of_int (snd (frame_resolution s))),
                           CallSet CAP_PROP_FPS (of_int (frame_rate s)),
                           CallSet CAP_PROP_AUTOFOCUS 1,
                           Log ERROR (''Failed to open the camera: '' @ exn_msg e)]))) \<and>
                  (cap_set drv c4 CAP_PROP_AUTOFOCUS 1 = Inr c5 \<longrightarrow>
                     run (open_camera drv) s =
                       (Inr (), (s\<lparr>camera := Some c5\<rparr>, acquire_calls (device_index s) c @
                          [CallSleep 1,
                           CallSet CAP_PROP_FRAME_WIDTH (of_int (fst (frame_resolution s))),
                           CallSet CAP_PROP_FRAME_HEIGHT (of_int (snd (frame_resolution s))),
                           CallSet CAP_PROP_FPS (of_int (frame_rate s)),
                           CallSet CAP_PROP_AUTOFOCUS 1,
                           Log INFO (config_text s)]))))))))"
proof (intro conjI impI)
  show "outcome (run (open_camera drv) s) = Inr ()"
    by (simp add: outcome_def run_def open_camera_returns)
  from open_camera_shape [of drv s "[]"]
  show "count_ev is_acquire (trace (run (open_camera drv) s)) \<le> 2"
    by (auto simp: run_defs count_ev_def)
next
  assume "VideoCapture drv (device_index s) = Inl e"
  from open_camera_raise [OF this, of "[]"]
  show "run (open_camera drv) s =
        (Inr (), (s, [CallVideoCapture (device_index s),
                      Log ERROR (''Failed to open the camera: '' @ exn_msg e)]))"
    by (simp add: run_def)
next
  show "acquire_calls (device_index s) c =
        CallVideoCapture (device_index s) # (if opened c then [] else [CallOpen (device_index s)])"
    by (simp add: acquire_calls_def)
next
  assume "acquired drv (device_index s) c = Inl e"
  then show "\<not> opened c" by (auto simp: acquired_def split: if_splits)
next
  assume "VideoCapture drv (device_index s) = Inr c" "acquired drv (device_index s) c = Inl e"
  from open_camera_acquire_raise [OF this, of "[]"]
  show "run (open_camera drv) s =
           (Inr (), (s\<lparr>camera := Some c\<rparr>, acquire_calls (device_index s) c @
              [Log ERROR (''Failed to open the camera: '' @ exn_msg e)]))"
    by (simp add: run_def)
next
  assume "VideoCapture drv (device_index s) = Inr c" "acquired drv (device_index s) c = Inr c1"
    "cap_set drv c1 CAP_PROP_FRAME_WIDTH (of_int (fst (frame_resolution s))) = Inl e"
  from open_camera_width_raise [OF this, of "[]"]
  show "run (open_camera drv) s =
              (Inr (), (s\<lparr>camera := Some c1\<rparr>, acquire_calls (device_index s) c @
                 [CallSleep 1, CallSet CAP_PROP_FRAME_WIDTH (of_int (fst (frame_resolution s))),
                  Log ERROR (''Failed to open the camera: '' @ exn_msg e)]))"
    by (simp add: run_def)
next
  assume "VideoCapture drv (device_index s) = Inr c" "acquired drv (device_index s) c = Inr c1"
    "cap_set drv c1 CAP_PROP_FRAME_WIDTH (of_int (fst (frame_resolution s))) = Inr c2"
    "cap_set drv c2 CAP_PROP_FRAME_HEIGHT (of_int (snd (frame_resolution s))) = Inl e"
  from open_camera_height_raise [OF this, of "[]"]
  show "run (open_camera drv) s =
                 (Inr (), (s\<lparr>camera := Some c2\<rparr>, acquire_calls (device_index s) c @
                    [CallSleep 1, CallSet CAP_PROP_FRAME_WIDTH (of_int (fst (frame_resolution s))),
                     CallSet CAP_PROP_FRAME_HEIGHT (of_int (snd (frame_resolution s))),
                     Log ERROR (''Failed to open the camera: '' @ exn_msg e)]))"
    by (simp add: run_def)
next
  assume "VideoCapture drv (device_index s) = Inr c" "acquired drv (device_index s) c = Inr c1"
    "cap_set drv c1 CAP_PROP_FRAME_WIDTH (of_int (fst (frame_resolution s))) = Inr c2"
    "cap_set drv c2 CAP_PROP_FRAME_HEIGHT (of_int (snd (frame_resolution s))) = Inr c3"
    "cap_set drv c3 CAP_PROP_FPS (of_int (frame_rate s)) = Inl e"
  from open_camera_rate_raise [OF this, of "[]"]
  show "run (open_camera drv) s =
                    (Inr (), (s\<lparr>camera := Some c3\<rparr>, acquire_calls (device_index s) c @
                       [CallSleep 1, CallSet CAP_PROP_FRAME_WIDTH (of_int (fst (frame_resolution s))),
                        CallSet CAP_PROP_FRAME_HEIGHT (of_int (snd (frame_resolution s))),
                        CallSet CAP_PROP_FPS (of_int (frame_rate s)),
                        Log ERROR (''Failed to open the camera: '' @ exn_msg e)]))"
    by (simp add: run_def)
next
  assume "VideoCapture drv (device_index s) = Inr c" "acquired drv (device_index s) c = Inr c1"
    "cap_set drv c1 CAP_PROP_FRAME_WIDTH (of_int (fst (frame_resolution s))) = Inr c2"
    "cap_set drv c2 CAP_PROP_FRAME_HEIGHT (of_int (snd (frame_resolution s))) = Inr c3"
    "cap_set drv c3 CAP_PROP_FPS (of_int (frame_rate s)) = Inr c4"
    "cap_set drv c4 CAP_PROP_AUTOFOCUS 1 = Inl e"
  from open_camera_focus_raise [OF this, of "[]"]
  show "run (open_camera drv) s =
                       (Inr (), (s\<lparr>camera := Some c4\<rparr>, acquire_calls (device_index s) c @
                          [CallSleep 1,
                           CallSet CAP_PROP_FRAME_WIDTH (of_int (fst (frame_resolution s))),
                           CallSet CAP_PROP_FRAME_HEIGHT (of_int (snd (frame_resolution s))),
                           CallSet CAP_PROP_FPS (of_int (frame_rate s)),
                           CallSet CAP_PROP_AUTOFOCUS 1,
                           Log ERROR (''Failed to open the camera: '' @ exn_msg e)]))"
    by (simp add: run_def)
next
  assume "VideoCapture drv (device_index s) = Inr c" "acquired drv (device_index s) c = Inr c1"
    "cap_set drv c1 CAP_PROP_FRAME_WIDTH (of_int (fst (frame_resolution s))) = Inr c2"
    "cap_set drv c2 CAP_PROP_FRAME_HEIGHT (of_int (snd (frame_resolution s))) = Inr c3"
    "cap_set drv c3 CAP_PROP_FPS (of_int (frame_rate s)) = Inr c4"
    "cap_set drv c4 CAP_PROP_AUTOFOCUS 1 = Inr c5"
  from open_camera_configured [OF this, of "[]"]
  show "run (open_camera drv) s =
                       (Inr (), (s\<lparr>camera := Some c5\<rparr>, acquire_calls (device_index s) c @
                          [CallSleep 1,
                           CallSet CAP_PROP_FRAME_WIDTH (of_int (fst (frame_resolution s))),
                           CallSet CAP_PROP_FRAME_HEIGHT (of_int (snd (frame_resolution s))),
                           CallSet CAP_PROP_FPS (of_int (frame_rate s)),
                           CallSet CAP_PROP_AUTOFOCUS 1,
                           Log INFO (config_text s)]))"
    by (simp add: run_def)
qed

theorem open_camera_never_raises_witness:
  "VideoCapture busy_driver (device_index cam0) = Inr (vga\<lparr>opened := False\<rparr>) \<and>
   acquired busy_driver (device_index cam0) (vga\<lparr>opened := False\<rparr>) = Inr (vga\<lparr>opened := False\<rparr>) \<and>
   cap_set busy_driver (vga\<lparr>opened := False\<rparr>) CAP_PROP_FRAME_WIDTH
     (of_int (fst (frame_resolution cam0))) = Inr (vga\<lparr>opened := False\<rparr>) \<and>
   cap_set busy_driver (vga\<lparr>opened := False\<rparr>) CAP_PROP_FRAME_HEIGHT
     (of_int (snd (frame_resolution cam0))) = Inr (vga\<lparr>opened := False\<rparr>) \<and>
   cap_set busy_driver (vga\<lparr>opened := False\<rparr>) CAP_PROP_FPS
     (of_int (frame_rate cam0)) = Inr (vga\<lparr>opened := False\<rparr>) \<and>
   cap_set busy_driver (vga\<lparr>opened := False\<rparr>) CAP_PROP_AUTOFOCUS 1 = Inr (vga\<lparr>opened := False\<rparr>) \<and>
   run (open_camera busy_driver) cam0 =
     (Inr (), (cam0\<lparr>camera := Some (vga\<lparr>opened := False\<rparr>)\<rparr>,
        acquire_calls (device_index cam0) (vga\<lparr>opened := False\<rparr>) @
        [CallSleep 1,
         CallSet CAP_PROP_FRAME_WIDTH (of_int (fst (frame_resolution cam0))),
         CallSet CAP_PROP_FRAME_HEIGHT (of_int (snd (frame_resolution cam0))),
         CallSet CAP_PROP_FPS (of_int (frame_rate cam0)),
         CallSet CAP_PROP_AUTOFOCUS 1,
         Log INFO (config_text cam0)])) \<and>
   VideoCapture broken_driver (device_index cam0) = Inl (CvError ''can not open camera by index'') \<and>
   run (open_camera broken_driver) cam0 =
     (Inr (), (cam0, [CallVideoCapture (device_index cam0),
        Log ERROR (''Failed to open the camera: '' @ exn_msg (CvError ''can not open camera by index''))]))"
proof -
  let ?c = "vga\<lparr>opened := False\<rparr>"
  have h1: "VideoCapture busy_driver (device_index cam0) = Inr ?c"
    by (simp add: busy_driver_def)
  have h2: "acquired busy_driver (device_index cam0) ?c = Inr ?c"
    by (simp add: acquired_def busy_driver_def)
  have h3: "cap_set busy_driver ?c CAP_PROP_FRAME_WIDTH (of_int (fst (frame_resolution cam0))) = Inr ?c"
    by (simp add: busy_driver_def)
  have h4: "cap_set busy_driver ?c CAP_PROP_FRAME_HEIGHT (of_int (snd (frame_resolution cam0))) = Inr ?c"
    by (simp add: busy_driver_def)
  have h5: "cap_set busy_driver ?c CAP_PROP_FPS (of_int (frame_rate cam0)) = Inr ?c"
    by (simp add: busy_driver_def)
  have h6: "cap_set busy_driver ?c CAP_PROP_AUTOFOCUS 1 = Inr ?c"
    by (simp add: busy_driver_def)
  have h7: "VideoCapture broken_driver (device_index cam0) = Inl (CvError ''can not open camera by index'')"
    by (simp add: broken_driver_def)
  from open_camera_never_raises [of busy_driver cam0 _ ?c ?c ?c ?c ?c ?c]
    open_camera_never_raises [of broken_driver cam0 "CvError ''can not open camera by index''"]
    h1 h2 h3 h4 h5 h6 h7
  show ?thesis by blast
qed

text \<open>
  C3 as the specification states it fails: on a busy device the implicit open leaves the
  session not open, and \<^verbatim>\<open>take_picture\<close> returns normally; the same holds when the
  constructor raises.
\<close>

theorem implicit_open_failure_propagated_counterexample:
  "\<not> is_open cam0 \<and>
   outcome (run (take_picture busy_driver good_io (Some ''out'') (PyStr ''smoke'') (PyStr ''1'') False) cam0) = Inr () \<and>
   \<not> is_open (final (run (take_picture busy_driver good_io (Some ''out'') (PyStr ''smoke'') (PyStr ''1'') False) cam0)) \<and>
   outcome (run (take_picture broken_driver good_io (Some ''out'') (PyStr ''smoke'') (PyStr ''1'') False) cam0) = Inr () \<and>
   \<not> is_open (final (run (take_picture broken_driver good_io (Some ''out'') (PyStr ''smoke'') (PyStr ''1'') False) cam0))"
  by (simp add: eval_defs)

text \<open>
  C3, as the code has it: on a session that is not open, \<^verbatim>\<open>take_picture\<close> logs a warning
  and calls \<^verbatim>\<open>open_camera\<close> once, so the constructor is called once, and this happens
  before the read. The call returns normally in every case. If the session is still not
  open after that, no file is written and a warning or an error is logged for the read.
\<close>

theorem implicit_open_once:
  assumes "\<not> is_open s"
  shows "\<exists>s' oevs cevs.
     open_camera drv (s, tr @ [Log WARNING ''Camera is not opened. Trying to open it...'']) =
       (Inr (), (s', tr @ Log WARNING ''Camera is not opened. Trying to open it...'' #
                      CallVideoCapture (device_index s) # oevs)) \<and>
     take_picture drv io d L C m (s, tr) =
       (Inr (), (s', tr @ Log WARNING ''Camera is not opened. Trying to open it...'' #
                      CallVideoCapture (device_index s) # oevs @ cevs)) \<and>
     count_ev is_ctor (oevs @ cevs) = 0 \<and> count_ev is_read oevs = 0 \<and>
     count_ev is_read cevs \<le> 1 \<and>
     (\<not> is_open s' \<longrightarrow>
        count_ev is_write (oevs @ cevs) = 0 \<and> (\<exists>ev\<in>set cevs. is_trouble ev))"
proof -
  from take_picture_closed_shape [OF assms, of drv tr io d L C m]
  obtain s' oevs cevs where
    "open_camera drv (s, tr @ [Log WARNING ''Camera is not opened. Trying to open it...'']) =
       (Inr (), (s', tr @ Log WARNING ''Camera is not opened. Trying to open it...'' #
                      CallVideoCapture (device_index s) # oevs))"
    "take_picture drv io d L C m (s, tr) =
       (Inr (), (s', tr @ Log WARNING ''Camera is not opened. Trying to open it...'' #
                      CallVideoCapture (device_index s) # oevs @ cevs))"
    "count_ev is_ctor oevs = 0" "count_ev is_read oevs = 0" "count_ev is_write oevs = 0"
    "count_ev is_ctor cevs = 0" "count_ev is_read cevs \<le> 1"
    "\<not> is_open s' \<longrightarrow> count_ev is_write cevs = 0 \<and> (\<exists>ev\<in>set cevs. is_trouble ev)"
    by blast
  then show ?thesis
    by (intro exI [of _ s'] exI [of _ oevs] exI [of _ cevs]) (simp add: count_ev_def)
qed

theorem implicit_open_once_witness:
  "\<not> is_open cam0 \<and>
   (\<exists>s' oevs cevs.
     take_picture busy_driver good_io (Some ''out'') (PyStr ''smoke'') (PyStr ''1'') True (cam0, []) =
       (Inr (), (s', [] @ Log WARNING ''Camera is not opened. Trying to open it...'' #
                      CallVideoCapture (device_index cam0) # oevs @ cevs)) \<and>
     count_ev is_ctor (oevs @ cevs) = 0 \<and> count_ev is_read oevs = 0 \<and>
     count_ev is_read cevs \<le> 1)"
proof -
  have h: "\<not> is_open cam0" by (simp add: is_open_def cam0_def init_session_def)
  from implicit_open_once [OF h, of busy_driver "[]" good_io "Some ''out''" "PyStr ''smoke''"
      "PyStr ''1''" True] h
  show ?thesis by blast
qed

text \<open>
  C8 as the specification states it fails in two ways: a label that begins with the
  separator makes \<^verbatim>\<open>os.path.join\<close> drop the directory, and two captures one hour apart
  across the end of summer time in Berlin get the same local timestamp, hence the same
  file.
\<close>

theorem capture_path_counterexample:
  "is_open opened_cam \<and> io_read good_io = Inr (Some 7) \<and>
   trace (run (take_picture fixed_driver good_io (Some ''out'') (PyStr ''/smoke'') (PyStr ''1'') False) opened_cam) =
     [CallRead, Imwrite ''/smoke_20240517_120000_1.jpg'' (Some 95),
      Log INFO ''Image saved as: /smoke_20240517_120000_1.jpg''] \<and>
   ''out'' @ ''/'' @ fmt (PyStr ''/smoke'') @ ''_'' @ strftime (io_now good_io) @ ''_'' @
     fmt (PyStr ''1'') @ ''.jpg'' = ''out//smoke_20240517_120000_1.jpg'' \<and>
   io_now (io_at 1729989000) = localtime berlin 1729989000 \<and>
   io_now (io_at 1729992600) = localtime berlin 1729992600 \<and>
   (1729989000 :: int) + 3600 = 1729992600 \<and>
   trace (run (take_picture fixed_driver (io_at 1729989000) (Some ''out'') (PyStr ''smoke'') (PyStr ''1'') False) opened_cam) =
     [CallRead, Imwrite ''out/smoke_20241027_023000_1.jpg'' (Some 95),
      Log INFO ''Image saved as: smoke_20241027_023000_1.jpg''] \<and>
   trace (run (take_picture fixed_driver (io_at 1729992600) (Some ''out'') (PyStr ''smoke'') (PyStr ''1'') False) opened_cam) =
     [CallRead, Imwrite ''out/smoke_20241027_023000_1.jpg'' (Some 95),
      Log INFO ''Image saved as: smoke_20241027_023000_1.jpg'']"
  by (simp add: eval_defs berlin_repeat)

text \<open>
  C8, as the code has it: a capture on an open session whose read gives a frame calls
  \<^verbatim>\<open>imwrite\<close> first with the path \<^verbatim>\<open>os.path.join(directory, L_timestamp_C.jpg)\<close> and JPEG
  quality 95. That path is the directory, a separator and the file name when the directory
  is not empty and does not end with the separator and the label does not begin with it.
  Two captures on the session with the same directory, label and counter, taken at least
  one second apart at instants that have the same offset from UTC, write to different
  paths.
\<close>

theorem capture_file_name:
  assumes "camera s = Some c" and "opened c" and "io_read io = Inr (Some f)"
  shows "(\<exists>rest. take_picture drv io (Some d) L C m (s, tr) =
       (Inr (), (s, tr @ CallRead #
          Imwrite (posix_join d (fmt L @ ''_'' @ strftime (io_now io) @ ''_'' @ fmt C @ ''.jpg''))
            (Some 95) # rest))) \<and>
    (d \<noteq> [] \<and> last d \<noteq> CHR ''/'' \<and> take 1 (fmt L) \<noteq> ''/'' \<longrightarrow>
       posix_join d (fmt L @ ''_'' @ strftime (io_now io) @ ''_'' @ fmt C @ ''.jpg'') =
       d @ ''/'' @ fmt L @ ''_'' @ strftime (io_now io) @ ''_'' @ fmt C @ ''.jpg'') \<and>
    (io_read io2 = Inr (Some f2) \<and>
     io_now io = localtime tz \<lfloor>r1\<rfloor> \<and> io_now io2 = localtime tz \<lfloor>r2\<rfloor> \<and>
     r1 + 1 \<le> r2 \<and> tz \<lfloor>r1\<rfloor> = tz \<lfloor>r2\<rfloor> \<and> 0 \<le> \<lfloor>r1\<rfloor> + tz \<lfloor>r1\<rfloor> \<longrightarrow>
       (\<exists>p1 p2 rest1 rest2.
          take_picture drv io (Some d) L C m (s, tr) =
            (Inr (), (s, tr @ CallRead # Imwrite p1 (Some 95) # rest1)) \<and>
          take_picture drv2 io2 (Some d) L C m2 (s, tr2) =
            (Inr (), (s, tr2 @ CallRead # Imwrite p2 (Some 95) # rest2)) \<and>
          p1 \<noteq> p2))"
proof (intro conjI impI)
  from assms have op: "is_open s" by (simp add: is_open_def)
  from assms have fr: "frame_of c (io_read io) = Inr (Some f)" by (simp add: frame_of_def)
  have name: "picture_stem L t C @ ''.jpg'' = fmt L @ ''_'' @ strftime t @ ''_'' @ fmt C @ ''.jpg''"
    for t by (simp add: picture_stem_def)
  from capture_try_frame [OF assms(1) fr, of d L C m tr]
  show one: "\<exists>rest. take_picture drv io (Some d) L C m (s, tr) =
       (Inr (), (s, tr @ CallRead #
          Imwrite (posix_join d (fmt L @ ''_'' @ strftime (io_now io) @ ''_'' @ fmt C @ ''.jpg''))
            (Some 95) # rest))"
    using op by (simp add: take_picture_open name)
  {
    assume a: "io_read io2 = Inr (Some f2) \<and>
     io_now io = localtime tz \<lfloor>r1\<rfloor> \<and> io_now io2 = localtime tz \<lfloor>r2\<rfloor> \<and>
     r1 + 1 \<le> r2 \<and> tz \<lfloor>r1\<rfloor> = tz \<lfloor>r2\<rfloor> \<and> 0 \<le> \<lfloor>r1\<rfloor> + tz \<lfloor>r1\<rfloor>"
    let ?n1 = "fmt L @ ''_'' @ strftime (io_now io) @ ''_'' @ fmt C @ ''.jpg''"
    let ?n2 = "fmt L @ ''_'' @ strftime (io_now io2) @ ''_'' @ fmt C @ ''.jpg''"
    from a assms(2) have fr2: "frame_of c (io_read io2) = Inr (Some f2)"
      by (simp add: frame_of_def)
    from capture_try_frame [OF assms(1) fr2, of d L C m2 tr2]
    have two: "\<exists>rest. take_picture drv2 io2 (Some d) L C m2 (s, tr2) =
       (Inr (), (s, tr2 @ CallRead # Imwrite (posix_join d ?n2) (Some 95) # rest))"
      using op by (simp add: take_picture_open name)
    from a have "r1 + 1 \<le> r2" by simp
    then have "\<lfloor>r1 + 1\<rfloor> \<le> \<lfloor>r2\<rfloor>" by (rule floor_mono)
    then have "\<lfloor>r1\<rfloor> + 1 \<le> \<lfloor>r2\<rfloor>" by simp
    with a have ne: "\<lfloor>r1\<rfloor> \<noteq> \<lfloor>r2\<rfloor>" and p2: "0 \<le> \<lfloor>r2\<rfloor> + tz \<lfloor>r2\<rfloor>" by simp_all
    have "localtime tz \<lfloor>r1\<rfloor> \<noteq> localtime tz \<lfloor>r2\<rfloor>"
    proof
      assume "localtime tz \<lfloor>r1\<rfloor> = localtime tz \<lfloor>r2\<rfloor>"
      from localtime_inj [OF this] a p2 ne show False by simp
    qed
    with a have "io_now io \<noteq> io_now io2" by simp
    moreover from a have "tm_valid (io_now io)" "tm_valid (io_now io2)"
      by (simp_all add: localtime_valid)
    ultimately have "strftime (io_now io) \<noteq> strftime (io_now io2)"
      using strftime_inj by blast
    then have n: "?n1 \<noteq> ?n2" by simp
    have "take 1 ?n1 = take 1 ?n2" by (cases "fmt L") simp_all
    with n have "posix_join d ?n1 \<noteq> posix_join d ?n2" using posix_join_inj by blast
    with one two show "\<exists>p1 p2 rest1 rest2.
          take_picture drv io (Some d) L C m (s, tr) =
            (Inr (), (s, tr @ CallRead # Imwrite p1 (Some 95) # rest1)) \<and>
          take_picture drv2 io2 (Some d) L C m2 (s, tr2) =
            (Inr (), (s, tr2 @ CallRead # Imwrite p2 (Some 95) # rest2)) \<and>
          p1 \<noteq> p2"
      by blast
  }
next
  assume a: "d \<noteq> [] \<and> last d \<noteq> CHR ''/'' \<and> take 1 (fmt L) \<noteq> ''/''"
  then have "take 1 (fmt L @ ''_'' @ strftime (io_now io) @ ''_'' @ fmt C @ ''.jpg'') \<noteq> ''/''"
    by (cases "fmt L") simp_all
  with a show "posix_join d (fmt L @ ''_'' @ strftime (io_now io) @ ''_'' @ fmt C @ ''.jpg'') =
       d @ ''/'' @ fmt L @ ''_'' @ strftime (io_now io) @ ''_'' @ fmt C @ ''.jpg''"
    by (simp add: posix_join_plain)
qed

theorem capture_file_name_witness:
  "camera opened_cam = Some vga \<and> opened vga \<and> io_read (io_at 1729989000) = Inr (Some 7) \<and>
   io_read (io_at 1729989001) = Inr (Some 7) \<and>
   io_now (io_at 1729989000) = localtime berlin \<lfloor>1729989000 :: real\<rfloor> \<and>
   io_now (io_at 1729989001) = localtime berlin \<lfloor>1729989001 :: real\<rfloor> \<and>
   (1729989000 :: real) + 1 \<le> 1729989001 \<and>
   berlin \<lfloor>1729989000 :: real\<rfloor> = berlin \<lfloor>1729989001 :: real\<rfloor> \<and>
   0 \<le> \<lfloor>1729989000 :: real\<rfloor> + berlin \<lfloor>1729989000 :: real\<rfloor> \<and>
   (\<exists>rest. take_picture fixed_driver (io_at 1729989000) (Some ''out'') (PyStr ''smoke'')
        (PyStr ''1'') True (opened_cam, []) =
      (Inr (), (opened_cam, [] @ CallRead #
         Imwrite (posix_join ''out'' (fmt (PyStr ''smoke'') @ ''_'' @
            strftime (io_now (io_at 1729989000)) @ ''_'' @ fmt (PyStr ''1'') @ ''.jpg''))
           (Some 95) # rest))) \<and>
   posix_join ''out'' (fmt (PyStr ''smoke'') @ ''_'' @ strftime (io_now (io_at 1729989000)) @
      ''_'' @ fmt (PyStr ''1'') @ ''.jpg'') = ''out/smoke_20241027_023000_1.jpg'' \<and>
   (\<exists>p1 p2 rest1 rest2.
      take_picture fixed_driver (io_at 1729989000) (Some ''out'') (PyStr ''smoke'') (PyStr ''1'')
          True (opened_cam, []) =
        (Inr (), (opened_cam, [] @ CallRead # Imwrite p1 (Some 95) # rest1)) \<and>
      take_picture fixed_driver (io_at 1729989001) (Some ''out'') (PyStr ''smoke'') (PyStr ''1'')
          True (opened_cam, []) =
        (Inr (), (opened_cam, [] @ CallRead # Imwrite p2 (Some 95) # rest2)) \<and>
      p1 \<noteq> p2)"
proof -
  have h1: "camera opened_cam = Some vga" by (simp add: opened_cam_def)
  have h2: "opened vga" by (simp add: vga_def)
  have h3: "io_read (io_at 1729989000) = Inr (Some 7)" by (simp add: io_at_def good_io_def)
  have h4: "io_read (io_at 1729989001) = Inr (Some 7)" by (simp add: io_at_def good_io_def)
  have h5: "io_now (io_at 1729989000) = localtime berlin \<lfloor>1729989000 :: real\<rfloor>"
    "io_now (io_at 1729989001) = localtime berlin \<lfloor>1729989001 :: real\<rfloor>"
    by (simp_all add: io_at_def)
  have h6: "(1729989000 :: real) + 1 \<le> 1729989001" by simp
  have h7: "berlin \<lfloor>1729989000 :: real\<rfloor> = berlin \<lfloor>1729989001 :: real\<rfloor>"
    "0 \<le> \<lfloor>1729989000 :: real\<rfloor> + berlin \<lfloor>1729989000 :: real\<rfloor>"
    by (simp_all add: berlin_def)
  have p: "posix_join ''out'' (fmt (PyStr ''smoke'') @ ''_'' @ strftime (io_now (io_at 1729989000)) @
      ''_'' @ fmt (PyStr ''1'') @ ''.jpg'') = ''out/smoke_20241027_023000_1.jpg''"
    by (simp add: io_at_def berlin_repeat posix_join_def strftime_def pad2_def str_nat.simps
        digit_char_def)
  from capture_file_name [OF h1 h2 h3, of fixed_driver "''out''" "PyStr ''smoke''" "PyStr ''1''"
      True "[]" "io_at 1729989001" 7 berlin 1729989000 1729989001 fixed_driver True "[]"]
    h1 h2 h3 h4 h5 h6 h7 p
  show ?thesis by blast
qed

text \<open>
  C9 as the specification states it fails: on a device that keeps 640x480 at 30 frames a
  second, \<^verbatim>\<open>open_camera\<close> logs, after the four \<^verbatim>\<open>set\<close> calls, the resolution
  \<^verbatim>\<open>(1280, 720)\<close> and the rate 15 that were requested.
\<close>

theorem open_log_reports_request_counterexample:
  "frame_resolution cam0 = (1280, 720) \<and> frame_rate cam0 = 15 \<and>
   run (open_camera fixed_driver) cam0 =
     (Inr (), (opened_cam,
        [CallVideoCapture 0, CallSleep 1, CallSet CAP_PROP_FRAME_WIDTH 1280,
         CallSet CAP_PROP_FRAME_HEIGHT 720, CallSet CAP_PROP_FPS 15, CallSet CAP_PROP_AUTOFOCUS 1,
         Log INFO ''Initial Camera with configuration: index: 0, resolution: (1280, 720), frame rate: 15fps''])) \<and>
   camera opened_cam = Some vga \<and> actual vga = (640, 480, 30)"
  by (simp add: eval_defs config_text_def actual_def cap_get_def py_int_def)

text \<open>
  C9, as the code has it: \<^verbatim>\<open>open_camera\<close> returns normally whatever the device makes of
  the requested resolution and rate, and when no call raises, its last event is the info
  line with the requested values. A preview afterwards reports what \<^verbatim>\<open>get\<close> returns from
  the handle: its first event prints these values, and every turn that shows a frame draws
  the device index, the frame-info line with the same values, the countdown and the key
  hint, then shows the frame and polls the key. This is the whole trace of a preview that
  returns and of one that exits on a failed read, and no preview changes its outcome or its
  trace when the requested resolution and rate of the session are changed.
\<close>

theorem preview_reports_device_values:
  "outcome (run (open_camera drv) s0) = Inr () \<and>
   (VideoCapture drv (device_index s0) = Inr c0 \<and> acquired drv (device_index s0) c0 = Inr c1 \<and>
    cap_set drv c1 CAP_PROP_FRAME_WIDTH (of_int (fst (frame_resolution s0))) = Inr c2 \<and>
    cap_set drv c2 CAP_PROP_FRAME_HEIGHT (of_int (snd (frame_resolution s0))) = Inr c3 \<and>
    cap_set drv c3 CAP_PROP_FPS (of_int (frame_rate s0)) = Inr c4 \<and>
    cap_set drv c4 CAP_PROP_AUTOFOCUS 1 = Inr c5 \<longrightarrow>
      final (run (open_camera drv) s0) = s0\<lparr>camera := Some c5\<rparr> \<and>
      last (trace (run (open_camera drv) s0)) =
        Log INFO (''Initial Camera with configuration: index: '' @ str_int (device_index s0) @
          '', resolution: '' @ fmt_pair (frame_resolution s0) @
          '', frame rate: '' @ str_int (frame_rate s0) @ ''fps'')) \<and>
   actual c =
     (py_int (cap_get c CAP_PROP_FRAME_WIDTH), py_int (cap_get c CAP_PROP_FRAME_HEIGHT),
      py_int (cap_get c CAP_PROP_FPS)) \<and>
   shown_events idx act T t0 t =
     [CallRead,
      PutText (''Camera ID: '' @ str_int idx) (25, 40),
      PutText (''Frame Info: '' @ str_int (fst act) @ ''x'' @ str_int (fst (snd act)) @ ''@'' @
        str_int (snd (snd act)) @ ''fps'') (25, 80),
      PutText (countdown T (fsub (tk_now t) t0)) (25, 120),
      PutText (''Enter '' @ [CHR 0x22] @ ''q'' @ [CHR 0x22] @ '' to close windows'') (25, 160),
      Imshow ''frame'', WaitKey 1] \<and>
   (camera s = Some c \<and> (\<forall>t\<in>set pre. shown c t \<and> \<not> breaks T t0 t) \<longrightarrow>
      (shown c t \<and> breaks T t0 t \<longrightarrow>
         show_live_camera T t0 (pre @ t # post) (s, tr) =
           Some (Inr (), (s, tr @
             Print (''Actual camera info: '' @ str_int (fst (actual c)) @ ''x'' @
               str_int (fst (snd (actual c))) @ ''@'' @ str_int (snd (snd (actual c))) @ ''fps'') #
             concat (map (shown_events (device_index s) (actual c) T t0) (pre @ [t])) @
             [DestroyAllWindows, WaitKey 1]))) \<and>
      (frame_of c (tk_read t) = Inr None \<longrightarrow>
         show_live_camera T t0 (pre @ t # post) (s, tr) =
           Some (Inl (SysExit 1), (s\<lparr>camera := Some (c\<lparr>opened := False\<rparr>)\<rparr>, tr @
             Print (''Actual camera info: '' @ str_int (fst (actual c)) @ ''x'' @
               str_int (fst (snd (actual c))) @ ''@'' @ str_int (snd (snd (actual c))) @ ''fps'') #
             concat (map (shown_events (device_index s) (actual c) T t0) pre) @
             [CallRead, CallRelease,
              Log ERROR (''Can not receive camera_id:'' @ str_int (device_index s) @ '' frame'')])))) \<and>
   seen (show_live_camera T t0 ticks (s\<lparr>frame_resolution := r, frame_rate := f\<rparr>, tr)) =
   seen (show_live_camera T t0 ticks (s, tr))"
proof (intro conjI impI)
  show "outcome (run (open_camera drv) s0) = Inr ()"
    by (simp add: outcome_def run_def open_camera_returns)
  show "actual c =
     (py_int (cap_get c CAP_PROP_FRAME_WIDTH), py_int (cap_get c CAP_PROP_FRAME_HEIGHT),
      py_int (cap_get c CAP_PROP_FPS))"
    by (simp add: actual_def)
  show "shown_events idx act T t0 t =
     [CallRead,
      PutText (''Camera ID: '' @ str_int idx) (25, 40),
      PutText (''Frame Info: '' @ str_int (fst act) @ ''x'' @ str_int (fst (snd act)) @ ''@'' @
        str_int (snd (snd act)) @ ''fps'') (25, 80),
      PutText (countdown T (fsub (tk_now t) t0)) (25, 120),
      PutText (''Enter '' @ [CHR 0x22] @ ''q'' @ [CHR 0x22] @ '' to close windows'') (25, 160),
      Imshow ''frame'', WaitKey 1]"
    by (simp add: shown_events_def frame_info_def)
  show "seen (show_live_camera T t0 ticks (s\<lparr>frame_resolution := r, frame_rate := f\<rparr>, tr)) =
    seen (show_live_camera T t0 ticks (s, tr))"
    by (rule preview_request)
  {
    assume a: "VideoCapture drv (device_index s0) = Inr c0 \<and>
      acquired drv (device_index s0) c0 = Inr c1 \<and>
      cap_set drv c1 CAP_PROP_FRAME_WIDTH (of_int (fst (frame_resolution s0))) = Inr c2 \<and>
      cap_set drv c2 CAP_PROP_FRAME_HEIGHT (of_int (snd (frame_resolution s0))) = Inr c3 \<and>
      cap_set drv c3 CAP_PROP_FPS (of_int (frame_rate s0)) = Inr c4 \<and>
      cap_set drv c4 CAP_PROP_AUTOFOCUS 1 = Inr c5"
    then have a1: "VideoCapture drv (device_index s0) = Inr c0"
      and a2: "acquired drv (device_index s0) c0 = Inr c1"
      and a3: "cap_set drv c1 CAP_PROP_FRAME_WIDTH (of_int (fst (frame_resolution s0))) = Inr c2"
      and a4: "cap_set drv c2 CAP_PROP_FRAME_HEIGHT (of_int (snd (frame_resolution s0))) = Inr c3"
      and a5: "cap_set drv c3 CAP_PROP_FPS (of_int (frame_rate s0)) = Inr c4"
      and a6: "cap_set drv c4 CAP_PROP_AUTOFOCUS 1 = Inr c5"
      by simp_all
    have o: "open_camera drv (s0, []) =
      (Inr (), (s0\<lparr>camera := Some c5\<rparr>, [] @ acquire_calls (device_index s0) c0 @
        [CallSleep 1, CallSet CAP_PROP_FRAME_WIDTH (of_int (fst (frame_resolution s0))),
         CallSet CAP_PROP_FRAME_HEIGHT (of_int (snd (frame_resolution s0))),
         CallSet CAP_PROP_FPS (of_int (frame_rate s0)), CallSet CAP_PROP_AUTOFOCUS 1,
         Log INFO (config_text s0)]))"
      by (rule open_camera_configured [OF a1 a2 a3 a4 a5 a6])
    show "final (run (open_camera drv) s0) = s0\<lparr>camera := Some c5\<rparr>"
      by (simp add: run_defs o)
    show "last (trace (run (open_camera drv) s0)) =
        Log INFO (''Initial Camera with configuration: index: '' @ str_int (device_index s0) @
          '', resolution: '' @ fmt_pair (frame_resolution s0) @
          '', frame rate: '' @ str_int (frame_rate s0) @ ''fps'')"
      by (simp add: run_defs o config_text_def)
  }
  {
    assume a: "camera s = Some c \<and> (\<forall>t\<in>set pre. shown c t \<and> \<not> breaks T t0 t)"
    then have cam: "camera s = Some c" and pre: "\<forall>t\<in>set pre. shown c t \<and> \<not> breaks T t0 t"
      by simp_all
    {
      assume "shown c t \<and> breaks T t0 t"
      then have "shown c t" "breaks T t0 t" by simp_all
      from preview_exit [OF cam pre this, of post tr]
      show "show_live_camera T t0 (pre @ t # post) (s, tr) =
           Some (Inr (), (s, tr @
             Print (''Actual camera info: '' @ str_int (fst (actual c)) @ ''x'' @
               str_int (fst (snd (actual c))) @ ''@'' @ str_int (snd (snd (actual c))) @ ''fps'') #
             concat (map (shown_events (device_index s) (actual c) T t0) (pre @ [t])) @
             [DestroyAllWindows, WaitKey 1]))"
        by (simp add: frame_info_def)
    }
    {
      assume "frame_of c (tk_read t) = Inr None"
      from preview_fatal [OF cam pre this, of post tr]
      show "show_live_camera T t0 (pre @ t # post) (s, tr) =
           Some (Inl (SysExit 1), (s\<lparr>camera := Some (c\<lparr>opened := False\<rparr>)\<rparr>, tr @
             Print (''Actual camera info: '' @ str_int (fst (actual c)) @ ''x'' @
               str_int (fst (snd (actual c))) @ ''@'' @ str_int (snd (snd (actual c))) @ ''fps'') #
             concat (map (shown_events (device_index s) (actual c) T t0) pre) @
             [CallRead, CallRelease,
              Log ERROR (''Can not receive camera_id:'' @ str_int (device_index s) @ '' frame'')]))"
        by (simp add: frame_info_def)
    }
  }
qed

theorem preview_reports_device_values_witness:
  "frame_resolution cam0 = (1280, 720) \<and> frame_rate cam0 = 15 \<and>
   VideoCapture fixed_driver (device_index cam0) = Inr vga \<and>
   acquired fixed_driver (device_index cam0) vga = Inr vga \<and>
   cap_set fixed_driver vga CAP_PROP_FRAME_WIDTH (of_int (fst (frame_resolution cam0))) = Inr vga \<and>
   cap_set fixed_driver vga CAP_PROP_FRAME_HEIGHT (of_int (snd (frame_resolution cam0))) = Inr vga \<and>
   cap_set fixed_driver vga CAP_PROP_FPS (of_int (frame_rate cam0)) = Inr vga \<and>
   cap_set fixed_driver vga CAP_PROP_AUTOFOCUS 1 = Inr vga \<and>
   final (run (open_camera fixed_driver) cam0) = cam0\<lparr>camera := Some vga\<rparr> \<and>
   camera (cam0\<lparr>camera := Some vga\<rparr>) = Some vga \<and> actual vga = (640, 480, 30) \<and>
   shown vga (frame_tick 0 113) \<and> breaks 60 0 (frame_tick 0 113) \<and>
   show_live_camera 60 0 ([] @ frame_tick 0 113 # []) (cam0\<lparr>camera := Some vga\<rparr>, []) =
     Some (Inr (), (cam0\<lparr>camera := Some vga\<rparr>,
       [Print ''Actual camera info: 640x480@30fps'', CallRead,
        PutText ''Camera ID: 0'' (25, 40), PutText ''Frame Info: 640x480@30fps'' (25, 80),
        PutText ''Countdown Clock: 01:00'' (25, 120),
        PutText (''Enter '' @ [CHR 0x22] @ ''q'' @ [CHR 0x22] @ '' to close windows'') (25, 160),
        Imshow ''frame'', WaitKey 1, DestroyAllWindows, WaitKey 1]))"
proof -
  have h0: "frame_resolution cam0 = (1280, 720) \<and> frame_rate cam0 = 15"
    by (simp add: cam0_def init_session_def)
  have h1: "VideoCapture fixed_driver (device_index cam0) = Inr vga \<and>
     acquired fixed_driver (device_index cam0) vga = Inr vga \<and>
     cap_set fixed_driver vga CAP_PROP_FRAME_WIDTH (of_int (fst (frame_resolution cam0))) = Inr vga \<and>
     cap_set fixed_driver vga CAP_PROP_FRAME_HEIGHT (of_int (snd (frame_resolution cam0))) = Inr vga \<and>
     cap_set fixed_driver vga CAP_PROP_FPS (of_int (frame_rate cam0)) = Inr vga \<and>
     cap_set fixed_driver vga CAP_PROP_AUTOFOCUS 1 = Inr vga"
    by (simp add: fixed_driver_def acquired_def vga_def)
  have h2: "camera (cam0\<lparr>camera := Some vga\<rparr>) = Some vga" by simp
  have h3: "actual vga = (640, 480, 30)"
    by (simp add: actual_def cap_get_def py_int_def vga_def)
  have h4: "shown vga (frame_tick 0 113) \<and> breaks 60 0 (frame_tick 0 113)"
    by (simp add: shown_def breaks_def frame_of_def frame_tick_def vga_def)
  have h5: "\<forall>t\<in>set ([] :: tick list). shown vga t \<and> \<not> breaks 60 0 t" by simp
  have e: "Print (''Actual camera info: '' @ str_int (fst (actual vga)) @ ''x'' @
        str_int (fst (snd (actual vga))) @ ''@'' @ str_int (snd (snd (actual vga))) @ ''fps'') #
      concat (map (shown_events (device_index (cam0\<lparr>camera := Some vga\<rparr>)) (actual vga) 60 0)
        ([] @ [frame_tick 0 113])) @ [DestroyAllWindows, WaitKey 1] =
      [Print ''Actual camera info: 640x480@30fps'', CallRead,
        PutText ''Camera ID: 0'' (25, 40), PutText ''Frame Info: 640x480@30fps'' (25, 80),
        PutText ''Countdown Clock: 01:00'' (25, 120),
        PutText (''Enter '' @ [CHR 0x22] @ ''q'' @ [CHR 0x22] @ '' to close windows'') (25, 160),
        Imshow ''frame'', WaitKey 1, DestroyAllWindows, WaitKey 1]"
    by (simp add: h3 shown_events_def frame_info_def countdown_def fsub_def fl_values py_int_def
        fmt_02d_def str_int_def str_nat.simps digit_char_def Let_def cam0_def init_session_def
        frame_tick_def)
  from preview_reports_device_values [of fixed_driver cam0 vga vga vga vga vga vga vga _ _ 60 0
      "frame_tick 0 113" "cam0\<lparr>camera := Some vga\<rparr>" "[]" "[]" "[]"] h0 h1 h2 h3 h4 h5
  have "final (run (open_camera fixed_driver) cam0) = cam0\<lparr>camera := Some vga\<rparr>"
    and "show_live_camera 60 0 ([] @ frame_tick 0 113 # []) (cam0\<lparr>camera := Some vga\<rparr>, []) =
      Some (Inr (), (cam0\<lparr>camera := Some vga\<rparr>, [] @
        Print (''Actual camera info: '' @ str_int (fst (actual vga)) @ ''x'' @
          str_int (fst (snd (actual vga))) @ ''@'' @ str_int (snd (snd (actual vga))) @ ''fps'') #
        concat (map (shown_events (device_index (cam0\<lparr>camera := Some vga\<rparr>)) (actual vga) 60 0)
          ([] @ [frame_tick 0 113])) @ [DestroyAllWindows, WaitKey 1]))"
    by blast+
  with e h0 h1 h2 h3 h4 show ?thesis by simp
qed

end
